theory Spec2Isabelle
  imports Main "HOL-Library.Sublist"
begin

section \<open>Python strings and the process environment\<close>

text \<open>
  Strings are byte strings (UTF-8); the operations below are the ones \<^verbatim>\<open>web/app.py\<close>
  applies to them.  \<open>lower\<close> folds the ASCII letters only.
\<close>

fun startswith :: "string \<Rightarrow> string \<Rightarrow> bool" where
  "startswith s [] = True"
| "startswith [] (p # ps) = False"
| "startswith (c # cs) (p # ps) = (c = p \<and> startswith cs ps)"

text \<open>Python's \<^verbatim>\<open>sub in s\<close>.\<close>

fun str_in :: "string \<Rightarrow> string \<Rightarrow> bool" where
  "str_in sub [] = (sub = [])"
| "str_in sub (c # cs) = (startswith (c # cs) sub \<or> str_in sub cs)"

definition lower_char :: "char \<Rightarrow> char" where
  "lower_char c =
     (let n = (of_char c :: nat) in if 65 \<le> n \<and> n \<le> 90 then char_of (n + 32) else c)"

definition lower :: "string \<Rightarrow> string" where
  "lower s = map lower_char s"

text \<open>\<^verbatim>\<open>s.split(sep)\<close> for a one-character separator: never the empty list.\<close>

fun split_chr :: "char \<Rightarrow> string \<Rightarrow> string list" where
  "split_chr sep [] = [[]]"
| "split_chr sep (c # cs) =
     (if c = sep then [] # split_chr sep cs
      else (case split_chr sep cs of
              [] \<Rightarrow> [[c]]
            | w # ws \<Rightarrow> (c # w) # ws))"

text \<open>\<^verbatim>\<open>s.split(sep, 1)\<close> on a string that contains \<open>sep\<close>: the two pieces.\<close>

definition split1 :: "char \<Rightarrow> string \<Rightarrow> string \<times> string" where
  "split1 sep s = (takeWhile (\<lambda>c. c \<noteq> sep) s, drop 1 (dropWhile (\<lambda>c. c \<noteq> sep) s))"

definition rstrip :: "char \<Rightarrow> string \<Rightarrow> string" where
  "rstrip ch s = rev (dropWhile (\<lambda>c. c = ch) (rev s))"

text \<open>\<^verbatim>\<open>s.replace(old, new, 1)\<close>: the leftmost occurrence only.\<close>

fun replace1 :: "string \<Rightarrow> string \<Rightarrow> string \<Rightarrow> string" where
  "replace1 old new [] = (if old = [] then new else [])"
| "replace1 old new (c # cs) =
     (if startswith (c # cs) old then new @ drop (length old) (c # cs)
      else c # replace1 old new cs)"

text \<open>
  The environment is a dictionary of strings.  A Python value that may be \<^verbatim>\<open>None\<close> is
  an option; \<open>truthy\<close> is its truth value and \<open>py_or\<close> is \<^verbatim>\<open>a or b\<close>.
\<close>

type_synonym env = "string \<rightharpoonup> string"

definition getenv :: "env \<Rightarrow> string \<Rightarrow> string option" where
  "getenv e k = e k"

definition getenv_default :: "env \<Rightarrow> string \<Rightarrow> string \<Rightarrow> string" where
  "getenv_default e k d = (case e k of None \<Rightarrow> d | Some v \<Rightarrow> v)"

definition truthy :: "string option \<Rightarrow> bool" where
  "truthy v = (case v of None \<Rightarrow> False | Some s \<Rightarrow> s \<noteq> [])"

definition py_or :: "string option \<Rightarrow> string option \<Rightarrow> string option" where
  "py_or a b = (if truthy a then a else b)"

text \<open>\<^verbatim>\<open>a or ""\<close>, the last link of an \<^verbatim>\<open>or\<close> chain that ends in a string.\<close>

definition or_str :: "string option \<Rightarrow> string \<Rightarrow> string" where
  "or_str a d = (case a of None \<Rightarrow> d | Some s \<Rightarrow> if s = [] then d else s)"

section \<open>Emulator detection and the blob base URL\<close>

text \<open>
  \<^verbatim>\<open>_parse_conn_str\<close>: the parts that contain \<^verbatim>\<open>=\<close>, each split once, in order.  Python's
  \<^verbatim>\<open>dict\<close> keeps the last value of a repeated key, which is what \<open>parts_get\<close> looks up.
  Every part kept has an \<^verbatim>\<open>=\<close>, so the split gives two pieces and nothing is raised.
\<close>

definition parse_conn_str :: "string \<Rightarrow> (string \<times> string) list" where
  "parse_conn_str conn =
     map (split1 CHR ''='') (filter (\<lambda>p. str_in ''='' p) (split_chr CHR '';'' conn))"

definition parts_get :: "(string \<times> string) list \<Rightarrow> string \<Rightarrow> string option" where
  "parts_get parts k = map_of (rev parts) k"

definition is_azurite :: "env \<Rightarrow> bool" where
  "is_azurite e =
     (let cs = getenv_default e ''AZURE_STORAGE_CONNECTION_STRING'' [] in
      if startswith cs ''UseDevelopmentStorage=true'' then True
      else
        let parts = parse_conn_str cs;
            acct = lower (or_str (py_or (parts_get parts ''AccountName'')
                                        (parts_get parts ''accountname'')) []);
            blob_ep = lower (or_str (py_or (parts_get parts ''BlobEndpoint'')
                                           (parts_get parts ''blobendpoint'')) [])
        in acct = ''devstoreaccount1'' \<or> str_in ''azurite'' blob_ep
             \<or> str_in ''127.0.0.1:10000'' blob_ep)"

text \<open>The \<^verbatim>\<open>or\<close> chain of \<^verbatim>\<open>blob_base_url\<close>, lines 97 to 105, read as a truth value.\<close>

definition is_azure_production :: "env \<Rightarrow> bool" where
  "is_azure_production e =
     (truthy (getenv e ''CONTAINER_APP_NAME'')
      \<or> truthy (getenv e ''CONTAINER_APP_ENV_DNS_SUFFIX'')
      \<or> truthy (getenv e ''WEBSITE_SITE_NAME'')
      \<or> truthy (getenv e ''WEBSITE_INSTANCE_ID'')
      \<or> truthy (getenv e ''APPSETTING_WEBSITE_SITE_NAME'')
      \<or> str_in ''blob.core.windows.net''
            (lower (or_str (Some (getenv_default e ''AZURE_STORAGE_CONNECTION_STRING'' [])) [])))"

definition blob_base_url :: "env \<Rightarrow> string \<Rightarrow> string" where
  "blob_base_url e account_name =
     (let public_base = getenv e ''PUBLIC_BLOB_BASE_URL'' in
      if truthy public_base then
        let pb = the public_base in
        if \<not> (startswith pb ''http://'' \<or> startswith pb ''https://'') then
          ''https://'' @ rstrip CHR ''/'' pb @ ''/'' @ account_name
        else if startswith pb ''http://'' \<and> \<not> str_in ''localhost'' pb
                  \<and> \<not> str_in ''127.0.0.1'' pb then
          rstrip CHR ''/'' (replace1 ''http://'' ''https://'' pb) @ ''/'' @ account_name
        else rstrip CHR ''/'' pb @ ''/'' @ account_name
      else if is_azurite e \<and> \<not> is_azure_production e then
        ''http://127.0.0.1:'' @ getenv_default e ''AZURITE_BLOB_HOST_PORT'' ''10000''
          @ ''/'' @ account_name
      else ''https://'' @ account_name @ ''.blob.core.windows.net'')"

section \<open>The storage backend, exceptions and responses\<close>

text \<open>
  A Python exception carries its class and the text \<^verbatim>\<open>str(e)\<close> gives.  \<open>BackendError\<close> stands
  for whatever the storage client library raises.
\<close>

datatype exn =
    AttributeError string
  | ValueError string
  | OverflowError string
  | HTTPException string
  | BackendError string

fun str_exn :: "exn \<Rightarrow> string" where
  "str_exn (AttributeError m) = m"
| "str_exn (ValueError m) = m"
| "str_exn (OverflowError m) = m"
| "str_exn (HTTPException m) = m"
| "str_exn (BackendError m) = m"

text \<open>JSON values as Flask parses and prints them (numbers: the integers).\<close>

datatype json =
    JNull
  | JBool bool
  | JInt int
  | JStr string
  | JArr "json list"
  | JObj "(string \<times> json) list"

fun type_name :: "json \<Rightarrow> string" where
  "type_name JNull = ''NoneType''"
| "type_name (JBool b) = ''bool''"
| "type_name (JInt i) = ''int''"
| "type_name (JStr s) = ''str''"
| "type_name (JArr xs) = ''list''"
| "type_name (JObj kvs) = ''dict''"

definition jopt :: "string option \<Rightarrow> json" where
  "jopt v = (case v of None \<Rightarrow> JNull | Some s \<Rightarrow> JStr s)"

definition jget :: "string \<Rightarrow> json \<Rightarrow> json option" where
  "jget k j = (case j of JObj kvs \<Rightarrow> map_of kvs k | _ \<Rightarrow> None)"

record content_settings =
  content_type :: "string option"
  content_encoding :: "string option"
  content_language :: "string option"
  cache_control :: "string option"

text \<open>
  What the client library reports of a blob.  The two timestamps are held as the text
  \<^verbatim>\<open>isoformat()\<close> prints; a field the library leaves unset is \<open>None\<close>.
\<close>

record blob_properties =
  blob_name :: string
  metadata :: "(string \<times> string) list option"
  last_modified :: "string option"
  creation_time :: "string option"
  blob_size :: "nat option"
  etag :: "string option"
  blob_type :: "string option"
  blob_content_settings :: "content_settings option"

datatype sas_permission = PermRead | PermAdd | PermCreate | PermWrite | PermDelete

record sas_args =
  sas_account_name :: string
  sas_container_name :: string
  sas_blob_name :: string
  sas_account_key :: "string option"
  sas_permission :: "sas_permission list"
  sas_expiry :: int

record service =
  account_name :: string

datatype container_client = ContainerClient string

text \<open>
  The client library and the service behind it, as the outcome of each call: \<open>None\<close> or
  \<open>Inr\<close> when the call returns, the exception otherwise.  The calls on a blob take the
  container and the blob name and stand for \<^verbatim>\<open>get_blob_client\<close> followed by the call.
\<close>

record backend =
  from_connection_string :: "string option \<Rightarrow> exn + service"
  get_container_client :: "string \<Rightarrow> exn option"
  get_container_properties :: "string \<Rightarrow> exn option"
  create_container :: "string \<Rightarrow> exn option"
  set_container_access_policy :: "string \<Rightarrow> string \<Rightarrow> exn option"
  list_blobs :: "string \<Rightarrow> string list \<Rightarrow> exn + blob_properties list"
  get_blob_properties :: "string \<Rightarrow> string \<Rightarrow> exn + blob_properties"
  download_blob :: "string \<Rightarrow> string \<Rightarrow> exn + string list"
  upload_blob :: "string \<Rightarrow> string \<Rightarrow> string \<Rightarrow> content_settings \<Rightarrow> exn option"
  set_blob_metadata :: "string \<Rightarrow> string \<Rightarrow> (string \<times> string) list \<Rightarrow> exn option"
  delete_blob :: "string \<Rightarrow> string \<Rightarrow> exn option"
  generate_blob_sas :: "sas_args \<Rightarrow> exn + string"

text \<open>The requests that change the service, in the order a handler sends them.\<close>

datatype call =
    CreateContainer string
  | SetContainerAccessPolicy string string
  | UploadBlob string string string content_settings
  | SetBlobMetadata string string "(string \<times> string) list"
  | DeleteBlob string string

datatype body = JsonBody json | StreamBody "string list"

record response =
  status :: nat
  mimetype :: string
  headers :: "(string \<times> string) list"
  body :: body

definition jsonify :: "json \<Rightarrow> nat \<Rightarrow> response" where
  "jsonify j code = \<lparr>status = code, mimetype = ''application/json'', headers = [], body = JsonBody j\<rparr>"

text \<open>\<^verbatim>\<open>jsonify({"error": str(e)}), code\<close>\<close>

definition error_response :: "exn \<Rightarrow> nat \<Rightarrow> response" where
  "error_response ex code = jsonify (JObj [(''error'', JStr (str_exn ex))]) code"

definition bsc :: "backend \<Rightarrow> env \<Rightarrow> exn + service" where
  "bsc be e = from_connection_string be (getenv e ''AZURE_STORAGE_CONNECTION_STRING'')"

text \<open>\<^verbatim>\<open>os.getenv("BLOB_CONTAINER", os.getenv("AZURE_STORAGE_CONTAINER", "uploads"))\<close>\<close>

definition container_name_of :: "env \<Rightarrow> string" where
  "container_name_of e =
     getenv_default e ''BLOB_CONTAINER'' (getenv_default e ''AZURE_STORAGE_CONTAINER'' ''uploads'')"

section \<open>Signed URLs\<close>

text \<open>
  \<^verbatim>\<open>urllib.parse.quote\<close> with its default \<^verbatim>\<open>safe="/"\<close>: every byte outside the unreserved
  characters and \<^verbatim>\<open>/\<close> becomes \<^verbatim>\<open>%XX\<close>.
\<close>

definition hex_digit :: "nat \<Rightarrow> char" where
  "hex_digit n = ''0123456789ABCDEF'' ! (n mod 16)"

definition always_safe :: "char set" where
  "always_safe = set (''ABCDEFGHIJKLMNOPQRSTUVWXYZ'' @ ''abcdefghijklmnopqrstuvwxyz''
                       @ ''0123456789'' @ ''_.-~'' @ ''/'')"

definition quote_char :: "char \<Rightarrow> string" where
  "quote_char c =
     (if c \<in> always_safe then [c]
      else [CHR ''%'', hex_digit (of_char c div 16), hex_digit (of_char c mod 16)])"

definition quote :: "string \<Rightarrow> string" where
  "quote s = concat (map quote_char s)"

definition account_key_from_conn_str :: "string option \<Rightarrow> string option" where
  "account_key_from_conn_str conn_str =
     (if \<not> truthy conn_str then None
      else let parts = parse_conn_str (the conn_str)
           in py_or (parts_get parts ''AccountKey'') (parts_get parts ''accountkey''))"

text \<open>
  \<^verbatim>\<open>urllib.parse.unquote\<close> on bytes, the reading a client gives the escaped name: \<^verbatim>\<open>%\<close>
  followed by two hexadecimal digits is one byte.
\<close>

definition hex_value :: "char \<Rightarrow> nat option" where
  "hex_value c =
     (let n = (of_char c :: nat) in
      if 48 \<le> n \<and> n \<le> 57 then Some (n - 48)
      else if 65 \<le> n \<and> n \<le> 70 then Some (n - 55)
      else if 97 \<le> n \<and> n \<le> 102 then Some (n - 87)
      else None)"

fun unquote :: "string \<Rightarrow> string" where
  "unquote (p # a # b # cs) =
     (case (if p = CHR ''%'' then hex_value a else None, hex_value b) of
        (Some h, Some l) \<Rightarrow> char_of (16 * h + l) # unquote cs
      | _ \<Rightarrow> p # unquote (a # b # cs))"
| "unquote cs = cs"

text \<open>\<^verbatim>\<open>str(n)\<close> of an integer.\<close>

fun str_nat :: "nat \<Rightarrow> string" where
  "str_nat n =
     (if n < 10 then [''0123456789'' ! n]
      else str_nat (n div 10) @ [''0123456789'' ! (n mod 10)])"

declare str_nat.simps [simp del]

definition str_int :: "int \<Rightarrow> string" where
  "str_int i = (if i < 0 then CHR ''-'' # str_nat (nat (- i)) else str_nat (nat i))"

text \<open>
  Line 125, \<^verbatim>\<open>minutes or int(os.getenv("SAS_EXPIRY_MINUTES", "5"))\<close>.  \<open>py_int\<close> is Python's
  \<^verbatim>\<open>int\<close> on a string, with the exception it raises.  An argument \<open>minutes\<close> that is
  \<^verbatim>\<open>None\<close> or \<open>0\<close> is false for \<^verbatim>\<open>or\<close>.
\<close>

definition sas_minutes :: "env \<Rightarrow> (string \<Rightarrow> exn + int) \<Rightarrow> int option \<Rightarrow> exn + int" where
  "sas_minutes e py_int minutes =
     (if minutes \<noteq> None \<and> minutes \<noteq> Some 0 then Inr (the minutes)
      else py_int (getenv_default e ''SAS_EXPIRY_MINUTES'' ''5''))"

text \<open>
  Line 126.  Times are microseconds since the epoch, the resolution of \<^verbatim>\<open>datetime\<close>.
  \<^verbatim>\<open>timedelta(minutes=m)\<close> holds its days in a C \<^verbatim>\<open>int\<close> of magnitude at most 999999999, and
  a \<^verbatim>\<open>datetime\<close> lies between the years 1 and 9999; outside, CPython 3.11 raises
  \<^verbatim>\<open>OverflowError\<close> with the texts below.
\<close>

definition timedelta_minutes :: "int \<Rightarrow> exn + int" where
  "timedelta_minutes m =
     (let days = m div 1440 in
      if days < - 2147483648 \<or> 2147483647 < days then
        Inl (OverflowError ''Python int too large to convert to C int'')
      else if days < - 999999999 \<or> 999999999 < days then
        Inl (OverflowError (''days='' @ str_int days @ ''; must have magnitude <= 999999999''))
      else Inr (60000000 * m))"

definition datetime_min :: int where
  "datetime_min = - 62135596800000000"

definition datetime_max :: int where
  "datetime_max = 253402300799999999"

definition datetime_add :: "int \<Rightarrow> int \<Rightarrow> exn + int" where
  "datetime_add t d =
     (if t + d < datetime_min \<or> datetime_max < t + d
      then Inl (OverflowError ''date value out of range'')
      else Inr (t + d))"

text \<open>The keyword arguments of \<^verbatim>\<open>generate_blob_sas\<close>, lines 128 to 135.\<close>

definition sas_request :: "env \<Rightarrow> service \<Rightarrow> string \<Rightarrow> string \<Rightarrow> int \<Rightarrow> sas_args" where
  "sas_request e svc container blob expiry =
     \<lparr>sas_account_name = account_name svc,
      sas_container_name = container,
      sas_blob_name = blob,
      sas_account_key =
        py_or (getenv e ''ACCOUNT_KEY'')
          (account_key_from_conn_str
             (Some (getenv_default e ''AZURE_STORAGE_CONNECTION_STRING'' []))),
      sas_permission = [PermRead],
      sas_expiry = expiry\<rparr>"

text \<open>\<open>make_sas\<close>; \<open>now\<close> is \<^verbatim>\<open>datetime.now(timezone.utc)\<close>.\<close>

definition make_sas ::
  "backend \<Rightarrow> env \<Rightarrow> (string \<Rightarrow> exn + int) \<Rightarrow> int \<Rightarrow> string \<Rightarrow> string \<Rightarrow> int option \<Rightarrow> exn + string" where
  "make_sas be e py_int now container blob minutes =
     (case bsc be e of
        Inl ex \<Rightarrow> Inl ex
      | Inr svc \<Rightarrow>
          (case sas_minutes e py_int minutes of
             Inl ex \<Rightarrow> Inl ex
           | Inr m \<Rightarrow>
               (case timedelta_minutes m of
                  Inl ex \<Rightarrow> Inl ex
                | Inr d \<Rightarrow>
                    (case datetime_add now d of
                       Inl ex \<Rightarrow> Inl ex
                     | Inr expiry \<Rightarrow>
                         (case generate_blob_sas be (sas_request e svc container blob expiry) of
                            Inl ex \<Rightarrow> Inl ex
                          | Inr sas \<Rightarrow>
                              Inr (blob_base_url e (account_name svc) @ ''/'' @ container @ ''/''
                                     @ quote blob @ ''?'' @ sas))))))"

section \<open>Container provisioning\<close>

text \<open>
  Lines 147 to 151 and again 157 to 161: on the emulator the access policy is set, and
  whatever that call raises is dropped.
\<close>

definition set_public_if_azurite :: "backend \<Rightarrow> env \<Rightarrow> string \<Rightarrow> (exn + unit) \<times> call list" where
  "set_public_if_azurite be e cn =
     (if is_azurite e then
        (case set_container_access_policy be cn ''blob'' of
           None \<Rightarrow> Inr ()
         | Some ex \<Rightarrow> Inr (),
         [SetContainerAccessPolicy cn ''blob''])
      else (Inr (), []))"

text \<open>
  \<open>ensure_container_exists\<close>: the client and the container client are built outside the
  \<^verbatim>\<open>try\<close>, so what they raise leaves the function; every call on the container is inside.
\<close>

definition ensure_container_exists ::
  "backend \<Rightarrow> env \<Rightarrow> string \<Rightarrow> (exn + container_client) \<times> call list" where
  "ensure_container_exists be e cn =
     (case bsc be e of
        Inl ex \<Rightarrow> (Inl ex, [])
      | Inr svc \<Rightarrow>
          (case get_container_client be cn of
             Some ex \<Rightarrow> (Inl ex, [])
           | None \<Rightarrow>
               (case get_container_properties be cn of
                  None \<Rightarrow>
                    (case set_public_if_azurite be e cn of
                       (Inl ex, cs) \<Rightarrow>
                         (case create_container be cn of
                            None \<Rightarrow>
                              (Inr (ContainerClient cn),
                               cs @ CreateContainer cn # snd (set_public_if_azurite be e cn))
                          | Some ex' \<Rightarrow> (Inr (ContainerClient cn), cs @ [CreateContainer cn]))
                     | (Inr u, cs) \<Rightarrow> (Inr (ContainerClient cn), cs))
                | Some ex \<Rightarrow>
                    (case create_container be cn of
                       None \<Rightarrow>
                         (Inr (ContainerClient cn),
                          CreateContainer cn # snd (set_public_if_azurite be e cn))
                     | Some ex' \<Rightarrow> (Inr (ContainerClient cn), [CreateContainer cn])))))"

section \<open>The request handlers\<close>

text \<open>\<^verbatim>\<open>name.split("/")[-1]\<close>\<close>

definition basename :: "string \<Rightarrow> string" where
  "basename n = last (split_chr CHR ''/'' n)"

text \<open>\<^verbatim>\<open>md.get(k)\<close> on the metadata dictionary, \<^verbatim>\<open>md\<close> being \<^verbatim>\<open>metadata or {}\<close>.\<close>

definition md_of :: "blob_properties \<Rightarrow> (string \<times> string) list" where
  "md_of b = (case metadata b of None \<Rightarrow> [] | Some kvs \<Rightarrow> kvs)"

definition md_get :: "(string \<times> string) list \<Rightarrow> string \<Rightarrow> string option" where
  "md_get md k = map_of md k"

definition json_of_md :: "(string \<times> string) list \<Rightarrow> json" where
  "json_of_md md = JObj (map (\<lambda>(k, v). (k, JStr v)) md)"

text \<open>
  \<^verbatim>\<open>content_settings.get(k)\<close> in \<^verbatim>\<open>api_get_blob\<close>, where \<^verbatim>\<open>content_settings\<close> is
  \<^verbatim>\<open>props.content_settings or {}\<close>.
\<close>

definition cs_get ::
  "content_settings option \<Rightarrow> (content_settings \<Rightarrow> string option) \<Rightarrow> string option" where
  "cs_get cs field = (case cs of None \<Rightarrow> None | Some c \<Rightarrow> field c)"

text \<open>The body of the loop of \<^verbatim>\<open>api_list_blobs\<close>, lines 210 to 247: one entry of the list.\<close>

definition list_blob_item :: "string \<Rightarrow> blob_properties \<Rightarrow> json" where
  "list_blob_item cn blob =
     (let md = md_of blob;
          content_type0 = or_str (md_get md ''mime_type'') [];
          (ctype, content_encoding', content_language', cache_control') =
            (case blob_content_settings blob of
               Some cs \<Rightarrow>
                 (or_str (py_or (Some content_type0) (content_type cs)) [],
                  or_str (content_encoding cs) [],
                  or_str (content_language cs) [],
                  or_str (cache_control cs) [])
             | None \<Rightarrow> (content_type0, [], [], []))
      in JObj
           [(''id'', JStr (blob_name blob)),
            (''name'', JStr (basename (blob_name blob))),
            (''size'', JInt (int (case blob_size blob of None \<Rightarrow> 0 | Some n \<Rightarrow> n))),
            (''type'', JStr ctype),
            (''lastModified'', jopt (last_modified blob)),
            (''metadata'', json_of_md md),
            (''blob_path'', JStr (cn @ ''/'' @ blob_name blob)),
            (''etag'', jopt (py_or (etag blob) None)),
            (''contentType'', JStr ctype),
            (''contentEncoding'', JStr content_encoding'),
            (''contentLanguage'', JStr content_language'),
            (''cacheControl'', JStr cache_control'),
            (''blobType'', JStr (or_str (blob_type blob) ''BlockBlob''))])"

definition api_list_blobs :: "backend \<Rightarrow> env \<Rightarrow> response \<times> call list" where
  "api_list_blobs be e =
     (case bsc be e of
        Inl ex \<Rightarrow> (error_response ex 500, [])
      | Inr svc \<Rightarrow>
          (let cn = container_name_of e in
           case ensure_container_exists be e cn of
             (Inl ex, cs) \<Rightarrow> (error_response ex 500, cs)
           | (Inr (ContainerClient c), cs) \<Rightarrow>
               (case list_blobs be c
                       (if is_azurite e then [''metadata''] else [''metadata'', ''tags'']) of
                  Inl ex \<Rightarrow> (error_response ex 500, cs)
                | Inr blobs \<Rightarrow>
                    (jsonify (JObj [(''blobs'', JArr (map (list_blob_item cn) blobs))]) 200, cs))))"

text \<open>The dictionary \<^verbatim>\<open>blob_item\<close> of \<^verbatim>\<open>api_get_blob\<close>, lines 263 to 284.\<close>

definition get_blob_item :: "string \<Rightarrow> string \<Rightarrow> blob_properties \<Rightarrow> json" where
  "get_blob_item cn bn props =
     (let cs = blob_content_settings props;
          md = md_of props
      in JObj
           [(''id'', JStr bn),
            (''name'', JStr (basename bn)),
            (''size'', JInt (int (case blob_size props of None \<Rightarrow> 0 | Some n \<Rightarrow> n))),
            (''type'', JStr (or_str (py_or (md_get md ''mime_type'') (cs_get cs content_type)) [])),
            (''lastModified'', jopt (last_modified props)),
            (''metadata'', json_of_md md),
            (''blob_path'', JStr (cn @ ''/'' @ bn)),
            (''etag'', jopt (py_or (etag props) None)),
            (''contentType'',
               JStr (or_str (py_or (cs_get cs content_type) (md_get md ''mime_type'')) [])),
            (''contentEncoding'', JStr (or_str (cs_get cs content_encoding) [])),
            (''contentLanguage'', JStr (or_str (cs_get cs content_language) [])),
            (''cacheControl'', JStr (or_str (cs_get cs cache_control) [])),
            (''blobType'', JStr (or_str (blob_type props) ''BlockBlob'')),
            (''creationTime'', jopt (creation_time props))])"

definition api_get_blob :: "backend \<Rightarrow> env \<Rightarrow> string \<Rightarrow> response" where
  "api_get_blob be e bn =
     (case bsc be e of
        Inl ex \<Rightarrow> error_response ex 404
      | Inr svc \<Rightarrow>
          (let cn = container_name_of e in
           case get_blob_properties be cn bn of
             Inl ex \<Rightarrow> error_response ex 404
           | Inr props \<Rightarrow> jsonify (get_blob_item cn bn props) 200))"

text \<open>
  An uploaded file part: \<^verbatim>\<open>f.filename\<close>, \<^verbatim>\<open>f.content_type\<close> as the client sent it, and the
  bytes.  \<open>guess_type\<close> is the first component of \<^verbatim>\<open>mimetypes.guess_type\<close>.
\<close>

record file_storage =
  filename :: "string option"
  client_content_type :: "string option"
  file_data :: string

definition api_upload_blob ::
  "backend \<Rightarrow> env \<Rightarrow> (string \<Rightarrow> string option) \<Rightarrow> (string \<times> file_storage) list
     \<Rightarrow> response \<times> call list" where
  "api_upload_blob be e guess_type files =
     (case map_of files ''file'' of
        None \<Rightarrow> (jsonify (JObj [(''error'', JStr ''No file provided'')]) 400, [])
      | Some f \<Rightarrow>
          if \<not> truthy (filename f) then
            (jsonify (JObj [(''error'', JStr ''Empty filename'')]) 400, [])
          else
            let fname = the (filename f) in
            (case bsc be e of
               Inl ex \<Rightarrow> (error_response ex 500, [])
             | Inr svc \<Rightarrow>
                 (let cn = container_name_of e in
                  case ensure_container_exists be e cn of
                    (Inl ex, cs) \<Rightarrow> (error_response ex 500, cs)
                  | (Inr cc, cs) \<Rightarrow>
                      (let guessed = guess_type fname;
                           ctype = (if \<not> truthy guessed
                                    then or_str (client_content_type f) ''application/octet-stream''
                                    else the guessed);
                           settings = \<lparr>content_type = Some ctype, content_encoding = None,
                                       content_language = None, cache_control = None\<rparr>
                       in case upload_blob be cn fname (file_data f) settings of
                            Some ex \<Rightarrow>
                              (error_response ex 500,
                               cs @ [UploadBlob cn fname (file_data f) settings])
                          | None \<Rightarrow>
                              (jsonify (JObj [(''message'', JStr ''Uploaded successfully''),
                                              (''filename'', JStr fname)]) 200,
                               cs @ [UploadBlob cn fname (file_data f) settings])))))"

text \<open>
  \<open>api_update_metadata\<close>.  \<open>request_json\<close> is what \<^verbatim>\<open>request.json\<close> gives: the parsed body, or
  the exception Flask raises for a body that is not JSON.  \<^verbatim>\<open>.get\<close> exists on a dictionary
  only.  \<open>py_str\<close> is \<^verbatim>\<open>str\<close> on a parsed value.
\<close>

definition api_update_metadata ::
  "backend \<Rightarrow> env \<Rightarrow> (json \<Rightarrow> string) \<Rightarrow> string \<Rightarrow> exn + json \<Rightarrow> response \<times> call list" where
  "api_update_metadata be e py_str bn request_json =
     (case request_json of
        Inl ex \<Rightarrow> (error_response ex 500, [])
      | Inr j \<Rightarrow>
          (case j of
             JObj kvs \<Rightarrow>
               (case (case map_of kvs ''metadata'' of None \<Rightarrow> JObj [] | Some v \<Rightarrow> v) of
                  JObj md \<Rightarrow>
                    (case bsc be e of
                       Inl ex \<Rightarrow> (error_response ex 500, [])
                     | Inr svc \<Rightarrow>
                         (let cn = container_name_of e;
                              string_metadata = map (\<lambda>(k, v). (k, py_str v)) md
                          in case set_blob_metadata be cn bn string_metadata of
                               Some ex \<Rightarrow>
                                 (error_response ex 500, [SetBlobMetadata cn bn string_metadata])
                             | None \<Rightarrow>
                                 (jsonify (JObj [(''message'', JStr ''Metadata updated successfully'')])
                                    200,
                                  [SetBlobMetadata cn bn string_metadata])))
                | _ \<Rightarrow>
                    (jsonify (JObj [(''error'', JStr ''Metadata must be a dictionary'')]) 400, []))
           | _ \<Rightarrow>
               (error_response
                  (AttributeError ([CHR 0x27] @ type_name j @ [CHR 0x27]
                     @ '' object has no attribute '' @ [CHR 0x27] @ ''get'' @ [CHR 0x27])) 500,
                [])))"

definition api_delete_blob :: "backend \<Rightarrow> env \<Rightarrow> string \<Rightarrow> response \<times> call list" where
  "api_delete_blob be e bn =
     (case bsc be e of
        Inl ex \<Rightarrow> (error_response ex 500, [])
      | Inr svc \<Rightarrow>
          (let cn = container_name_of e in
           case delete_blob be cn bn of
             Some ex \<Rightarrow> (error_response ex 500, [DeleteBlob cn bn])
           | None \<Rightarrow>
               (jsonify (JObj [(''message'', JStr ''Blob deleted successfully'')]) 200,
                [DeleteBlob cn bn])))"

definition api_get_blob_url ::
  "backend \<Rightarrow> env \<Rightarrow> (string \<Rightarrow> exn + int) \<Rightarrow> int \<Rightarrow> string \<Rightarrow> response" where
  "api_get_blob_url be e py_int now bn =
     (case make_sas be e py_int now (container_name_of e) bn None of
        Inl ex \<Rightarrow> error_response ex 500
      | Inr url \<Rightarrow> jsonify (JObj [(''url'', JStr url)]) 200)"

text \<open>
  \<open>api_view_blob\<close>.  Lines 381 to 393 choose the content type; \<^verbatim>\<open>props.content_settings\<close> is
  read only when the metadata gives none, and reading \<^verbatim>\<open>content_type\<close> of \<^verbatim>\<open>None\<close> raises.
  The download is opened, then the response is built: Werkzeug refuses a header value that
  holds a carriage return or a line feed (\<^verbatim>\<open>ValueError\<close>, the text is that of Werkzeug 3),
  which can happen for the \<^verbatim>\<open>Content-Type\<close> that \<^verbatim>\<open>mimetype=\<close> sets and for the
  \<^verbatim>\<open>Content-Disposition\<close> that carries the file name.  The result is the response object
  the handler returns: \<open>mimetype\<close> is the argument given to \<^verbatim>\<open>Response\<close>, the chunks of the
  download are the body, and no chunk is read before the handler returns.
\<close>

definition has_newline :: "string \<Rightarrow> bool" where
  "has_newline v = (CHR 0x0D \<in> set v \<or> CHR 0x0A \<in> set v)"

definition header_value_error :: "string \<Rightarrow> exn option" where
  "header_value_error v =
     (if has_newline v then Some (ValueError ''Header values must not contain newline characters.'')
      else None)"

definition view_content_type ::
  "(string \<Rightarrow> string option) \<Rightarrow> string \<Rightarrow> blob_properties \<Rightarrow> exn + string" where
  "view_content_type guess_type bn props =
     (let c1 = md_get (md_of props) ''mime_type'' in
      if truthy c1 then Inr (the c1)
      else
        (case blob_content_settings props of
           None \<Rightarrow>
             Inl (AttributeError
                    ([CHR 0x27] @ ''NoneType'' @ [CHR 0x27] @ '' object has no attribute ''
                       @ [CHR 0x27] @ ''content_type'' @ [CHR 0x27]))
         | Some cs \<Rightarrow>
             (let c2 = content_type cs in
              if truthy c2 then Inr (the c2)
              else
                let c3 = guess_type bn in
                if truthy c3 then Inr (the c3) else Inr ''application/octet-stream'')))"

definition api_view_blob ::
  "backend \<Rightarrow> env \<Rightarrow> (string \<Rightarrow> string option) \<Rightarrow> string \<Rightarrow> response" where
  "api_view_blob be e guess_type bn =
     (case bsc be e of
        Inl ex \<Rightarrow> error_response ex 404
      | Inr svc \<Rightarrow>
          (let cn = container_name_of e in
           case get_blob_properties be cn bn of
             Inl ex \<Rightarrow> error_response ex 404
           | Inr props \<Rightarrow>
               (case view_content_type guess_type bn props of
                  Inl ex \<Rightarrow> error_response ex 404
                | Inr ctype \<Rightarrow>
                    (case download_blob be cn bn of
                       Inl ex \<Rightarrow> error_response ex 404
                     | Inr chunks \<Rightarrow>
                         (case header_value_error ctype of
                            Some ex \<Rightarrow> error_response ex 404
                          | None \<Rightarrow>
                              (let fname = basename bn;
                                   disposition =
                                     ''inline; filename='' @ [CHR 0x22] @ fname @ [CHR 0x22]
                                       @ ''; filename*=UTF-8'' @ [CHR 0x27, CHR 0x27] @ quote fname
                               in case header_value_error disposition of
                                    Some ex \<Rightarrow> error_response ex 404
                                  | None \<Rightarrow>
                                      \<lparr>status = 200,
                                       mimetype = ctype,
                                       headers =
                                         [(''Content-Disposition'', disposition),
                                          (''Cache-Control'', ''public, max-age=3600''),
                                          (''X-Content-Type-Options'', ''nosniff'')]
                                         @ (case blob_size props of
                                              None \<Rightarrow> []
                                            | Some n \<Rightarrow>
                                                if n \<noteq> 0 then [(''Content-Length'', str_nat n)]
                                                else []),
                                       body = StreamBody chunks\<rparr>))))))"

section \<open>The content type precedence of the specification\<close>

text \<open>
  The precedence as the specification words it, for comparison with the three handlers:
  the \<^verbatim>\<open>mime_type\<close> metadata key, else the content type of the content settings, else the
  guess from the file name, else \<^verbatim>\<open>application/octet-stream\<close>.
\<close>

definition spec_content_type ::
  "(string \<Rightarrow> string option) \<Rightarrow> string \<Rightarrow> blob_properties \<Rightarrow> string" where
  "spec_content_type guess_type bn b =
     (if truthy (md_get (md_of b) ''mime_type'') then the (md_get (md_of b) ''mime_type'')
      else if truthy (cs_get (blob_content_settings b) content_type)
        then the (cs_get (blob_content_settings b) content_type)
      else if truthy (guess_type bn) then the (guess_type bn)
      else ''application/octet-stream'')"

section \<open>A loopback host, as the specification words it\<close>



section \<open>Sample environments, blobs and backends\<close>

text \<open>
  Concrete inputs on which the properties below are evaluated.  The environments: the
  development-storage shortcut, alone, with a platform marker, and with an override; a full
  emulator connection string with its account key; a blank connection string; a connection
  string whose keys are in upper case.
\<close>

definition env_emulator :: env where
  "env_emulator = [''AZURE_STORAGE_CONNECTION_STRING'' \<mapsto> ''UseDevelopmentStorage=true'']"

definition env_both :: env where
  "env_both = env_emulator(''CONTAINER_APP_NAME'' \<mapsto> ''blob-api'')"

definition env_both_override :: env where
  "env_both_override = env_both(''PUBLIC_BLOB_BASE_URL'' \<mapsto> ''http://127.0.0.1:10000'')"


definition env_azurite :: env where
  "env_azurite =
     [''AZURE_STORAGE_CONNECTION_STRING'' \<mapsto>
        ''DefaultEndpointsProtocol=http;AccountName=devstoreaccount1;AccountKey=a2V5;''
        @ ''BlobEndpoint=http://127.0.0.1:10000/devstoreaccount1;'']"

definition env_blank :: env where
  "env_blank = [''AZURE_STORAGE_CONNECTION_STRING'' \<mapsto> []]"

definition env_upper_keys :: env where
  "env_upper_keys =
     [''AZURE_STORAGE_CONNECTION_STRING'' \<mapsto> ''ACCOUNTNAME=devstoreaccount1;ACCOUNTKEY=a2V5'']"

text \<open>
  A fragment of the \<^verbatim>\<open>mimetypes\<close> table, and \<^verbatim>\<open>int\<close> as it is on the non-empty strings of
  decimal digits, the only ones it is applied to below.
\<close>

definition endswith :: "string \<Rightarrow> string \<Rightarrow> bool" where
  "endswith s suf = startswith (rev s) (rev suf)"

definition guess_sample :: "string \<Rightarrow> string option" where
  "guess_sample fn =
     (if endswith fn ''.pdf'' then Some ''application/pdf''
      else if endswith fn ''.txt'' then Some ''text/plain''
      else None)"

definition py_int_digits :: "string \<Rightarrow> exn + int" where
  "py_int_digits s =
     (if s \<noteq> [] \<and> list_all (\<lambda>c. 48 \<le> (of_char c :: nat) \<and> (of_char c :: nat) \<le> 57) s
      then Inr (foldl (\<lambda>a c. 10 * a + (of_char c - 48)) 0 s)
      else Inl (ValueError ''invalid literal for int() with base 10''))"

text \<open>
  The client library as far as it works without the service: the client is built from a
  connection string that is not blank, and a token is signed when there is an account key.
  The sample token shows the permission and the expiry it was asked for.
\<close>

definition sample_service :: service where
  "sample_service = \<lparr>account_name = ''devstoreaccount1''\<rparr>"

definition sample_connect :: "string option \<Rightarrow> exn + service" where
  "sample_connect cs =
     (case cs of
        None \<Rightarrow>
          Inl (AttributeError ([CHR 0x27] @ ''NoneType'' @ [CHR 0x27]
                 @ '' object has no attribute '' @ [CHR 0x27] @ ''rstrip'' @ [CHR 0x27]))
      | Some c \<Rightarrow>
          if c = [] then Inl (ValueError ''Connection string is either blank or malformed.'')
          else Inr sample_service)"

definition sample_sas :: "sas_args \<Rightarrow> exn + string" where
  "sample_sas a =
     (if \<not> truthy (sas_account_key a)
      then Inl (ValueError ''Either user_delegation_key or account_key must be provided.'')
      else Inr ((if sas_permission a = [PermRead] then ''sp=r'' else ''sp=other'')
                  @ ''&se='' @ str_int (sas_expiry a)))"

text \<open>A backend that serves one blob, and one whose every request is refused.\<close>

definition be_serving :: "blob_properties \<Rightarrow> backend" where
  "be_serving b =
     \<lparr>from_connection_string = sample_connect,
      get_container_client = (\<lambda>cn. None),
      get_container_properties = (\<lambda>cn. None),
      create_container = (\<lambda>cn. None),
      set_container_access_policy = (\<lambda>cn p. None),
      list_blobs = (\<lambda>cn inc. Inr [b]),
      get_blob_properties = (\<lambda>cn bn. Inr b),
      download_blob = (\<lambda>cn bn. Inr [''chunk1'', ''chunk2'']),
      upload_blob = (\<lambda>cn bn d st. None),
      set_blob_metadata = (\<lambda>cn bn md. None),
      delete_blob = (\<lambda>cn bn. None),
      generate_blob_sas = sample_sas\<rparr>"

definition refused :: exn where
  "refused = BackendError ''connection refused''"

definition be_unreachable :: backend where
  "be_unreachable =
     \<lparr>from_connection_string = sample_connect,
      get_container_client = (\<lambda>cn. None),
      get_container_properties = (\<lambda>cn. Some refused),
      create_container = (\<lambda>cn. Some refused),
      set_container_access_policy = (\<lambda>cn p. Some refused),
      list_blobs = (\<lambda>cn inc. Inl refused),
      get_blob_properties = (\<lambda>cn bn. Inl refused),
      download_blob = (\<lambda>cn bn. Inl refused),
      upload_blob = (\<lambda>cn bn d st. Some refused),
      set_blob_metadata = (\<lambda>cn bn md. Some refused),
      delete_blob = (\<lambda>cn bn. Some refused),
      generate_blob_sas = sample_sas\<rparr>"

definition blob_untyped :: blob_properties where
  "blob_untyped =
     \<lparr>blob_name = ''report.pdf'', metadata = None, last_modified = None, creation_time = None,
      blob_size = Some 5, etag = None, blob_type = None,
      blob_content_settings =
        Some \<lparr>content_type = None, content_encoding = None, content_language = None,
              cache_control = None\<rparr>\<rparr>"

definition blob_pdf :: blob_properties where
  "blob_pdf =
     blob_untyped\<lparr>blob_content_settings :=
        Some \<lparr>content_type = Some ''application/pdf'', content_encoding = None,
              content_language = None, cache_control = None\<rparr>\<rparr>"

definition blob_empty :: blob_properties where
  "blob_empty =
     \<lparr>blob_name = ''empty.txt'', metadata = None, last_modified = None, creation_time = None,
      blob_size = Some 0, etag = None, blob_type = None,
      blob_content_settings =
        Some \<lparr>content_type = Some ''text/plain'', content_encoding = None,
              content_language = None, cache_control = None\<rparr>\<rparr>"

text \<open>Reading a response: a member of a JSON body, and the entries of a listing.\<close>

definition json_field :: "string \<Rightarrow> response \<Rightarrow> json option" where
  "json_field k r = (case body r of JsonBody j \<Rightarrow> jget k j | StreamBody chunks \<Rightarrow> None)"

definition listed :: "response \<Rightarrow> json list" where
  "listed r = (case json_field ''blobs'' r of Some (JArr xs) \<Rightarrow> xs | _ \<Rightarrow> [])"

definition upload_form :: "(string \<times> file_storage) list" where
  "upload_form =
     [(''file'', \<lparr>filename = Some ''report.pdf'', client_content_type = Some ''text/html'',
                  file_data = ''data''\<rparr>)]"

definition be_download_refused :: backend where
  "be_download_refused = (be_serving blob_pdf)\<lparr>download_blob := (\<lambda>cn bn. Inl refused)\<rparr>"

definition blob_crlf :: blob_properties where
  "blob_crlf = blob_pdf\<lparr>blob_name := ''inbox/a'' @ [CHR 0x0D, CHR 0x0A] @ ''b.pdf''\<rparr>"

section \<open>Properties\<close>

subsection \<open>Strings\<close>

lemmas env_simps = getenv_def getenv_default_def truthy_def or_str_def py_or_def














subsection \<open>The blob base URL\<close>




text \<open>
  C4, amended.  With no public-base override, an environment that shows a production signal
  (one of the platform marker variables set to a non-empty value, or
  \<^verbatim>\<open>blob.core.windows.net\<close> in the connection string) gets the base URL
  \<^verbatim>\<open>https://{account}.blob.core.windows.net\<close>, whether or not an emulator signal holds too.
\<close>

theorem blob_base_url_production_precedence:
  assumes "\<not> truthy (getenv e ''PUBLIC_BLOB_BASE_URL'')" and "is_azure_production e"
  shows "blob_base_url e acct = ''https://'' @ acct @ ''.blob.core.windows.net''"
  using assms by (simp add: blob_base_url_def)

text \<open>C4 on an environment where both an emulator signal and a production signal hold.\<close>

theorem blob_base_url_production_precedence_witness:
  "is_azurite env_both \<and> is_azure_production env_both
   \<and> blob_base_url env_both ''devstoreaccount1'' = ''https://devstoreaccount1.blob.core.windows.net''"
proof -
  have p: "is_azure_production env_both"
    by (simp add: is_azure_production_def env_both_def env_emulator_def env_simps)
  have n: "\<not> truthy (getenv env_both ''PUBLIC_BLOB_BASE_URL'')"
    by (simp add: env_both_def env_emulator_def env_simps)
  have a: "is_azurite env_both"
    by (simp add: is_azurite_def env_both_def env_emulator_def env_simps)
  show ?thesis
    using a p blob_base_url_production_precedence [OF n p, of "''devstoreaccount1''"] by simp
qed

text \<open>
  C4 as stated fails under an override: both signals hold, and the base URL is the
  override's \<^verbatim>\<open>http://\<close> loopback address, not the production form.
\<close>

theorem blob_base_url_production_counterexample:
  "is_azure_production env_both_override \<and> is_azurite env_both_override
   \<and> blob_base_url env_both_override ''devstoreaccount1'' = ''http://127.0.0.1:10000/devstoreaccount1''
   \<and> blob_base_url env_both_override ''devstoreaccount1''
        \<noteq> ''https://devstoreaccount1.blob.core.windows.net''"
  by (simp add: blob_base_url_def is_azure_production_def is_azurite_def env_both_override_def
        env_both_def env_emulator_def env_simps rstrip_def)

lemma blob_base_url_emulator_url:
  "blob_base_url env_azurite ''devstoreaccount1'' = ''http://127.0.0.1:10000/devstoreaccount1''"
  by (simp add: blob_base_url_def is_azure_production_def is_azurite_def env_azurite_def
        env_simps parse_conn_str_def parts_get_def split1_def lower_def lower_char_def)

text \<open>
  C5, amended.  With no public-base override and no production signal, a connection string
  that passes one of the emulator tests of the code is classified as emulator and gets the
  base URL \<^verbatim>\<open>http://127.0.0.1:{port}/{account}\<close>, the port read from
  \<^verbatim>\<open>AZURITE_BLOB_HOST_PORT\<close> and \<open>10000\<close> when that variable is unset.  The tests: the
  string begins with \<^verbatim>\<open>UseDevelopmentStorage=true\<close>; or its \<^verbatim>\<open>AccountName\<close> part (else its
  \<^verbatim>\<open>accountname\<close> part) is \<^verbatim>\<open>devstoreaccount1\<close> in any letter case; or its \<^verbatim>\<open>BlobEndpoint\<close>
  part (else its \<^verbatim>\<open>blobendpoint\<close> part) contains \<^verbatim>\<open>azurite\<close> or \<^verbatim>\<open>127.0.0.1:10000\<close> in any
  letter case.
\<close>

theorem blob_base_url_emulator:
  assumes no_override: "\<not> truthy (getenv e ''PUBLIC_BLOB_BASE_URL'')"
    and conn: "getenv_default e ''AZURE_STORAGE_CONNECTION_STRING'' [] = cs"
    and marker:
      "startswith cs ''UseDevelopmentStorage=true''
       \<or> lower (or_str (py_or (parts_get (parse_conn_str cs) ''AccountName'')
                               (parts_get (parse_conn_str cs) ''accountname'')) [])
            = ''devstoreaccount1''
       \<or> str_in ''azurite''
            (lower (or_str (py_or (parts_get (parse_conn_str cs) ''BlobEndpoint'')
                                  (parts_get (parse_conn_str cs) ''blobendpoint'')) []))
       \<or> str_in ''127.0.0.1:10000''
            (lower (or_str (py_or (parts_get (parse_conn_str cs) ''BlobEndpoint'')
                                  (parts_get (parse_conn_str cs) ''blobendpoint'')) []))"
    and no_production: "\<not> is_azure_production e"
  shows "is_azurite e
       \<and> blob_base_url e acct
           = ''http://127.0.0.1:'' @ getenv_default e ''AZURITE_BLOB_HOST_PORT'' ''10000''
               @ ''/'' @ acct"
proof -
  have a: "is_azurite e"
    using conn marker by (auto simp add: is_azurite_def Let_def)
  then show ?thesis
    using no_override no_production by (simp add: blob_base_url_def)
qed

text \<open>
  C5 on the development-storage shortcut, and on a full emulator connection string that
  passes by its account name and its endpoint; the port variable is unset.
\<close>

theorem blob_base_url_emulator_witness:
  "is_azurite env_emulator
   \<and> blob_base_url env_emulator ''devstoreaccount1'' = ''http://127.0.0.1:10000/devstoreaccount1''
   \<and> is_azurite env_azurite
   \<and> blob_base_url env_azurite ''devstoreaccount1'' = ''http://127.0.0.1:10000/devstoreaccount1''"
proof -
  have n1: "\<not> truthy (getenv env_emulator ''PUBLIC_BLOB_BASE_URL'')"
    by (simp add: env_emulator_def env_simps)
  have c1: "getenv_default env_emulator ''AZURE_STORAGE_CONNECTION_STRING'' []
              = ''UseDevelopmentStorage=true''"
    by (simp add: env_emulator_def getenv_default_def)
  have p1: "\<not> is_azure_production env_emulator"
    by (simp add: is_azure_production_def env_emulator_def env_simps lower_def lower_char_def)
  have 1: "is_azurite env_emulator
           \<and> blob_base_url env_emulator ''devstoreaccount1''
               = ''http://127.0.0.1:10000/devstoreaccount1''"
    using blob_base_url_emulator [OF n1 c1 _ p1, of "''devstoreaccount1''"]
    by (simp add: env_emulator_def getenv_default_def)
  have n2: "\<not> truthy (getenv env_azurite ''PUBLIC_BLOB_BASE_URL'')"
    by (simp add: env_azurite_def env_simps)
  have c2: "getenv_default env_azurite ''AZURE_STORAGE_CONNECTION_STRING'' []
              = ''DefaultEndpointsProtocol=http;AccountName=devstoreaccount1;AccountKey=a2V5;''
                @ ''BlobEndpoint=http://127.0.0.1:10000/devstoreaccount1;''"
    by (simp add: env_azurite_def getenv_default_def)
  have p2: "\<not> is_azure_production env_azurite"
    by (simp add: is_azure_production_def env_azurite_def env_simps lower_def lower_char_def)
  have m2: "lower (or_str (py_or
              (parts_get (parse_conn_str
                 (''DefaultEndpointsProtocol=http;AccountName=devstoreaccount1;AccountKey=a2V5;''
                  @ ''BlobEndpoint=http://127.0.0.1:10000/devstoreaccount1;'')) ''AccountName'')
              (parts_get (parse_conn_str
                 (''DefaultEndpointsProtocol=http;AccountName=devstoreaccount1;AccountKey=a2V5;''
                  @ ''BlobEndpoint=http://127.0.0.1:10000/devstoreaccount1;'')) ''accountname'')) [])
            = ''devstoreaccount1''"
    by (simp add: parse_conn_str_def parts_get_def split1_def env_simps lower_def lower_char_def)
  have 2: "is_azurite env_azurite
           \<and> blob_base_url env_azurite ''devstoreaccount1''
               = ''http://127.0.0.1:10000/devstoreaccount1''"
    using blob_base_url_emulator [OF n2 c2 _ p2, of "''devstoreaccount1''"] m2
    by (simp add: env_azurite_def getenv_default_def)
  from 1 2 show ?thesis by simp
qed

text \<open>
  C5 as stated fails twice.  On the development-storage shortcut the base URL is not
  \<^verbatim>\<open>http://127.0.0.1:10000\<close> but that address followed by the account name.  And a
  connection string that carries the emulator account name under the key \<^verbatim>\<open>ACCOUNTNAME\<close>
  is not classified as emulator: its base URL is the \<^verbatim>\<open>https\<close> production form.
\<close>

theorem blob_base_url_emulator_counterexample:
  "\<not> truthy (getenv env_emulator ''PUBLIC_BLOB_BASE_URL'')
   \<and> is_azurite env_emulator \<and> \<not> is_azure_production env_emulator
   \<and> blob_base_url env_emulator ''devstoreaccount1'' \<noteq> ''http://127.0.0.1:10000''
   \<and> blob_base_url env_emulator ''devstoreaccount1'' = ''http://127.0.0.1:10000/devstoreaccount1''
   \<and> \<not> truthy (getenv env_upper_keys ''PUBLIC_BLOB_BASE_URL'')
   \<and> \<not> is_azure_production env_upper_keys
   \<and> \<not> is_azurite env_upper_keys
   \<and> blob_base_url env_upper_keys ''devstoreaccount1''
        = ''https://devstoreaccount1.blob.core.windows.net''"
proof -
  have 1: "\<not> truthy (getenv env_emulator ''PUBLIC_BLOB_BASE_URL'')
   \<and> is_azurite env_emulator \<and> \<not> is_azure_production env_emulator
   \<and> blob_base_url env_emulator ''devstoreaccount1'' \<noteq> ''http://127.0.0.1:10000''
   \<and> blob_base_url env_emulator ''devstoreaccount1'' = ''http://127.0.0.1:10000/devstoreaccount1''"
    by (simp add: blob_base_url_def is_azure_production_def is_azurite_def
        env_emulator_def env_simps lower_def lower_char_def)
  have p: "\<not> is_azure_production env_upper_keys"
    by (simp add: is_azure_production_def env_upper_keys_def env_simps lower_def lower_char_def)
  have a: "\<not> is_azurite env_upper_keys"
    by (simp add: is_azurite_def env_upper_keys_def env_simps parse_conn_str_def parts_get_def
          split1_def lower_def)
  have n: "\<not> truthy (getenv env_upper_keys ''PUBLIC_BLOB_BASE_URL'')"
    by (simp add: env_upper_keys_def env_simps)
  have u: "blob_base_url env_upper_keys ''devstoreaccount1''
             = ''https://devstoreaccount1.blob.core.windows.net''"
    using n a by (simp add: blob_base_url_def)
  from 1 p a n u show ?thesis by simp
qed


subsection \<open>Container provisioning\<close>

lemmas fixture_simps = be_serving_def be_unreachable_def sample_service_def sample_connect_def
  refused_def env_emulator_def bsc_def container_name_of_def getenv_def

lemma set_public_if_azurite_returns: "fst (set_public_if_azurite be e cn) = Inr ()"
  by (simp add: set_public_if_azurite_def split: option.splits)

lemma ensure_container_exists_returns:
  assumes "bsc be e = Inr svc" and "get_container_client be cn = None"
  shows "fst (ensure_container_exists be e cn) = Inr (ContainerClient cn)"
proof -
  obtain cs where s: "set_public_if_azurite be e cn = (Inr (), cs)"
    using set_public_if_azurite_returns [of be e cn]
    by (cases "set_public_if_azurite be e cn") auto
  show ?thesis
    using assms s by (simp add: ensure_container_exists_def split: option.splits)
qed

lemma ensure_container_exists_pair:
  assumes "bsc be e = Inr svc" and "get_container_client be cn = None"
  shows "\<exists>cs. ensure_container_exists be e cn = (Inr (ContainerClient cn), cs)"
proof -
  have "fst (ensure_container_exists be e cn) = Inr (ContainerClient cn)"
    using assms by (rule ensure_container_exists_returns)
  then show ?thesis
    by (cases "ensure_container_exists be e cn") simp
qed

lemma ensure_container_exists_no_client:
  "bsc be e = Inl ex \<Longrightarrow> ensure_container_exists be e cn = (Inl ex, [])"
  by (simp add: ensure_container_exists_def)

lemma ensure_container_exists_no_container_client:
  "bsc be e = Inr svc \<Longrightarrow> get_container_client be cn = Some ex \<Longrightarrow>
     ensure_container_exists be e cn = (Inl ex, [])"
  by (simp add: ensure_container_exists_def)

text \<open>
  C8, amended.  \<open>ensure_container_exists\<close> raises exactly what building the two clients
  raises (lines 141 and 142, before the \<^verbatim>\<open>try\<close>), and then no request has been sent.  Once
  the storage client and the container client are built, it returns the container client
  for the name whatever the calls on the container do: the properties read, the creation
  and the access-policy call may each return or raise (a creation that loses a race
  raises), and nothing they raise leaves the function.
\<close>

theorem ensure_container_exists_never_raises:
  "(bsc be e = Inl ex \<longrightarrow> ensure_container_exists be e cn = (Inl ex, []))
   \<and> (bsc be e = Inr svc \<and> get_container_client be cn = Some ex \<longrightarrow>
        ensure_container_exists be e cn = (Inl ex, []))
   \<and> (bsc be e = Inr svc \<and> get_container_client be cn = None \<longrightarrow>
        fst (ensure_container_exists be e cn) = Inr (ContainerClient cn))"
  using ensure_container_exists_no_client ensure_container_exists_no_container_client
    ensure_container_exists_returns
  by blast

text \<open>
  C8 on a backend that refuses the properties read, the creation and the policy call, and
  on a blank connection string.
\<close>

theorem ensure_container_exists_never_raises_witness:
  "ensure_container_exists be_unreachable env_emulator ''uploads''
     = (Inr (ContainerClient ''uploads''), [CreateContainer ''uploads''])
   \<and> ensure_container_exists be_unreachable env_blank ''uploads''
     = (Inl (ValueError ''Connection string is either blank or malformed.''), [])"
proof -
  have b: "bsc be_unreachable env_emulator = Inr sample_service"
    by (simp add: fixture_simps getenv_def)
  have c: "get_container_client be_unreachable ''uploads'' = None"
    by (simp add: fixture_simps)
  have k: "bsc be_unreachable env_blank
             = Inl (ValueError ''Connection string is either blank or malformed.'')"
    by (simp add: fixture_simps env_blank_def getenv_def)
  have "snd (ensure_container_exists be_unreachable env_emulator ''uploads'')
          = [CreateContainer ''uploads'']"
    using b by (simp add: ensure_container_exists_def be_unreachable_def refused_def)
  then have 1: "ensure_container_exists be_unreachable env_emulator ''uploads''
                  = (Inr (ContainerClient ''uploads''), [CreateContainer ''uploads''])"
    using ensure_container_exists_never_raises
            [of be_unreachable env_emulator _ "''uploads''" sample_service] b c
    by (cases "ensure_container_exists be_unreachable env_emulator ''uploads''") simp
  have 2: "ensure_container_exists be_unreachable env_blank ''uploads''
             = (Inl (ValueError ''Connection string is either blank or malformed.''), [])"
    using ensure_container_exists_never_raises
            [of be_unreachable env_blank
                "ValueError ''Connection string is either blank or malformed.''" "''uploads''"] k
    by simp
  from 1 2 show ?thesis by simp
qed

text \<open>
  C8 as stated fails: with a blank connection string the storage client cannot be built,
  and the exception leaves \<open>ensure_container_exists\<close> although the backend itself works.
\<close>

theorem ensure_container_exists_counterexample:
  "getenv env_blank ''AZURE_STORAGE_CONNECTION_STRING'' = Some []
   \<and> ensure_container_exists (be_serving blob_pdf) env_blank ''uploads''
       = (Inl (ValueError ''Connection string is either blank or malformed.''), [])"
  by (simp add: ensure_container_exists_def fixture_simps env_blank_def getenv_def)

subsection \<open>Signed URLs\<close>

lemma quote_append: "quote (xs @ ys) = quote xs @ quote ys"
  by (simp add: quote_def)

lemma percent_not_safe: "CHR ''%'' \<notin> always_safe"
  by (simp add: always_safe_def)

lemma less_16_cases:
  assumes "(k::nat) < 16"
  shows "k = 0 \<or> k = 1 \<or> k = 2 \<or> k = 3 \<or> k = 4 \<or> k = 5 \<or> k = 6 \<or> k = 7
       \<or> k = 8 \<or> k = 9 \<or> k = 10 \<or> k = 11 \<or> k = 12 \<or> k = 13 \<or> k = 14 \<or> k = 15"
  using assms by arith

lemma hex_digit_roundtrip: "k < 16 \<Longrightarrow> hex_value (hex_digit k) = Some k"
  using less_16_cases [of k] by (auto simp add: hex_value_def hex_digit_def)

lemma hex_digit_safe: "hex_digit k \<in> always_safe"
proof -
  have "k mod 16 < 16" by simp
  then show ?thesis
    using less_16_cases [of "k mod 16"] by (auto simp add: hex_digit_def always_safe_def)
qed

lemma unquote_keep:
  assumes "c \<noteq> CHR ''%''"
  shows "unquote (c # t) = c # unquote t"
proof (cases t)
  case Nil
  then show ?thesis by simp
next
  case (Cons a t')
  then show ?thesis using assms by (cases t') simp_all
qed

lemma unquote_escape:
  "unquote (CHR ''%'' # hex_digit (of_char c div 16) # hex_digit (of_char c mod 16) # t)
     = c # unquote t"
proof -
  have n: "(of_char c :: nat) < 256"
    by (metis of_char_mod_256 mod_less_divisor zero_less_numeral)
  then have h: "(of_char c :: nat) div 16 < 16" and l: "(of_char c :: nat) mod 16 < 16"
    by arith+
  have "char_of (16 * ((of_char c :: nat) div 16) + of_char c mod 16) = c"
    by simp
  then show ?thesis
    using hex_digit_roundtrip [OF h] hex_digit_roundtrip [OF l] by simp
qed

lemma unquote_quote: "unquote (quote s) = s"
proof (induction s)
  case Nil
  then show ?case by (simp add: quote_def)
next
  case (Cons c s)
  have q: "quote (c # s) = quote_char c @ quote s"
    by (simp add: quote_def)
  show ?case
  proof (cases "c \<in> always_safe")
    case True
    then have "c \<noteq> CHR ''%''" using percent_not_safe by auto
    then show ?thesis
      using True Cons.IH q by (simp add: quote_char_def unquote_keep)
  next
    case False
    then show ?thesis
      using Cons.IH q unquote_escape [of c "quote s"] by (simp add: quote_char_def)
  qed
qed

lemma quote_alphabet: "set (quote s) \<subseteq> insert CHR ''%'' always_safe"
proof (induction s)
  case Nil
  then show ?case by (simp add: quote_def)
next
  case (Cons c s)
  have "set (quote_char c) \<subseteq> insert CHR ''%'' always_safe"
    using hex_digit_safe by (auto simp add: quote_char_def)
  then show ?case
    using Cons.IH by (simp add: quote_def)
qed

lemma timedelta_five: "timedelta_minutes 5 = Inr 300000000"
  by (simp add: timedelta_minutes_def)

text \<open>
  C7.  A signed-URL request with the default lifetime (no \<open>minutes\<close> argument and
  \<^verbatim>\<open>SAS_EXPIRY_MINUTES\<close> unset, so that \<^verbatim>\<open>int("5")\<close> is used), made at a time from which five
  minutes can be added, asks the library for one token: its expiry is the current UTC time
  plus five minutes (300000000 microseconds), its permission is read and nothing else,
  and it is scoped to the requested container and blob.  The URL returned is the base
  URL, \<^verbatim>\<open>/\<close>, the container, \<^verbatim>\<open>/\<close>, the escaped blob name, \<^verbatim>\<open>?\<close> and the token; what the
  library raises is raised.  The escaped name loses nothing (unescaping gives the name
  back) and consists of unreserved characters, \<^verbatim>\<open>/\<close> and \<^verbatim>\<open>%\<close> only.
\<close>

theorem make_sas_default_ttl:
  assumes svc: "bsc be e = Inr svc"
    and ttl: "getenv e ''SAS_EXPIRY_MINUTES'' = None"
    and five: "py_int ''5'' = Inr 5"
    and rng: "datetime_min \<le> now" "now + 300000000 \<le> datetime_max"
  shows "make_sas be e py_int now container blob None =
           (case generate_blob_sas be
                   \<lparr>sas_account_name = account_name svc,
                    sas_container_name = container,
                    sas_blob_name = blob,
                    sas_account_key =
                      py_or (getenv e ''ACCOUNT_KEY'')
                        (account_key_from_conn_str
                           (Some (getenv_default e ''AZURE_STORAGE_CONNECTION_STRING'' []))),
                    sas_permission = [PermRead],
                    sas_expiry = now + 300000000\<rparr> of
              Inl ex \<Rightarrow> Inl ex
            | Inr token \<Rightarrow>
                Inr (blob_base_url e (account_name svc) @ ''/'' @ container @ ''/''
                       @ quote blob @ ''?'' @ token))
       \<and> unquote (quote blob) = blob
       \<and> set (quote blob) \<subseteq> insert CHR ''%'' always_safe"
proof -
  have m: "sas_minutes e py_int None = Inr 5"
    using ttl five by (simp add: sas_minutes_def getenv_def getenv_default_def)
  have a: "datetime_add now 300000000 = Inr (now + 300000000)"
    using rng by (simp add: datetime_add_def datetime_min_def datetime_max_def)
  show ?thesis
    using svc m a timedelta_five unquote_quote quote_alphabet
    by (simp add: make_sas_def sas_request_def)
qed

text \<open>
  C7 on the emulator, at noon of 4 November 2025, for a name with a space, a \<^verbatim>\<open>#\<close> and a
  \<^verbatim>\<open>?\<close>: the token is read-only and expires five minutes later.  With it, the escape of
  each of the 256 bytes, which is what \<^verbatim>\<open>urllib.parse.quote\<close> gives.
\<close>

theorem make_sas_default_ttl_witness:
  "make_sas (be_serving blob_pdf) env_azurite py_int_digits 1762257600000000
       ''uploads'' ''reports/Q3 summary#1?.pdf'' None
     = Inr (''http://127.0.0.1:10000/devstoreaccount1/uploads/''
            @ ''reports/Q3%20summary%231%3F.pdf?sp=r&se=1762257900000000'')
   \<and> quote (map char_of [0..<256::nat]) =
        ''%00%01%02%03%04%05%06%07%08%09%0A%0B%0C%0D%0E%0F%10%11%12%13%14%15%16%17'' @
        ''%18%19%1A%1B%1C%1D%1E%1F%20%21%22%23%24%25%26%27%28%29%2A%2B%2C-./012345'' @
        ''6789%3A%3B%3C%3D%3E%3F%40ABCDEFGHIJKLMNOPQRSTUVWXYZ%5B%5C%5D%5E_%60abcde'' @
        ''fghijklmnopqrstuvwxyz%7B%7C%7D~%7F%80%81%82%83%84%85%86%87%88%89%8A%8B%8'' @
        ''C%8D%8E%8F%90%91%92%93%94%95%96%97%98%99%9A%9B%9C%9D%9E%9F%A0%A1%A2%A3%A'' @
        ''4%A5%A6%A7%A8%A9%AA%AB%AC%AD%AE%AF%B0%B1%B2%B3%B4%B5%B6%B7%B8%B9%BA%BB%B'' @
        ''C%BD%BE%BF%C0%C1%C2%C3%C4%C5%C6%C7%C8%C9%CA%CB%CC%CD%CE%CF%D0%D1%D2%D3%D'' @
        ''4%D5%D6%D7%D8%D9%DA%DB%DC%DD%DE%DF%E0%E1%E2%E3%E4%E5%E6%E7%E8%E9%EA%EB%E'' @
        ''C%ED%EE%EF%F0%F1%F2%F3%F4%F5%F6%F7%F8%F9%FA%FB%FC%FD%FE%FF''"
proof -
  have b: "bsc (be_serving blob_pdf) env_azurite = Inr sample_service"
    by (simp add: be_serving_def sample_connect_def bsc_def env_azurite_def getenv_def)
  have t: "getenv env_azurite ''SAS_EXPIRY_MINUTES'' = None"
    by (simp add: env_azurite_def getenv_def)
  have f: "py_int_digits ''5'' = Inr 5"
    by (simp add: py_int_digits_def)
  have r: "datetime_min \<le> (1762257600000000::int)"
          "(1762257600000000::int) + 300000000 \<le> datetime_max"
    by (simp_all add: datetime_min_def datetime_max_def)
  have u: "blob_base_url env_azurite ''devstoreaccount1''
             = ''http://127.0.0.1:10000/devstoreaccount1''"
    using blob_base_url_emulator_url by simp
  have q: "quote ''reports/Q3 summary#1?.pdf'' = ''reports/Q3%20summary%231%3F.pdf''"
    by (simp add: quote_def quote_char_def always_safe_def hex_digit_def)
  have k: "py_or (getenv env_azurite ''ACCOUNT_KEY'')
             (account_key_from_conn_str
                (Some (getenv_default env_azurite ''AZURE_STORAGE_CONNECTION_STRING'' [])))
             = Some ''a2V5''"
    by (simp add: account_key_from_conn_str_def env_azurite_def env_simps parse_conn_str_def
          parts_get_def split1_def)
  have s: "str_int 1762257900000000 = ''1762257900000000''"
    by (simp add: str_int_def str_nat.simps)
  have 1: "make_sas (be_serving blob_pdf) env_azurite py_int_digits 1762257600000000
       ''uploads'' ''reports/Q3 summary#1?.pdf'' None
     = Inr (''http://127.0.0.1:10000/devstoreaccount1/uploads/''
            @ ''reports/Q3%20summary%231%3F.pdf?sp=r&se=1762257900000000'')"
    using make_sas_default_ttl [where py_int = py_int_digits and now = 1762257600000000
        and container = "''uploads''" and blob = "''reports/Q3 summary#1?.pdf''",
        OF b t f r] u q k s
    by (simp add: be_serving_def sample_service_def sample_sas_def truthy_def)
  have 2: "quote (map char_of [0..<256::nat]) =
        ''%00%01%02%03%04%05%06%07%08%09%0A%0B%0C%0D%0E%0F%10%11%12%13%14%15%16%17'' @
        ''%18%19%1A%1B%1C%1D%1E%1F%20%21%22%23%24%25%26%27%28%29%2A%2B%2C-./012345'' @
        ''6789%3A%3B%3C%3D%3E%3F%40ABCDEFGHIJKLMNOPQRSTUVWXYZ%5B%5C%5D%5E_%60abcde'' @
        ''fghijklmnopqrstuvwxyz%7B%7C%7D~%7F%80%81%82%83%84%85%86%87%88%89%8A%8B%8'' @
        ''C%8D%8E%8F%90%91%92%93%94%95%96%97%98%99%9A%9B%9C%9D%9E%9F%A0%A1%A2%A3%A'' @
        ''4%A5%A6%A7%A8%A9%AA%AB%AC%AD%AE%AF%B0%B1%B2%B3%B4%B5%B6%B7%B8%B9%BA%BB%B'' @
        ''C%BD%BE%BF%C0%C1%C2%C3%C4%C5%C6%C7%C8%C9%CA%CB%CC%CD%CE%CF%D0%D1%D2%D3%D'' @
        ''4%D5%D6%D7%D8%D9%DA%DB%DC%DD%DE%DF%E0%E1%E2%E3%E4%E5%E6%E7%E8%E9%EA%EB%E'' @
        ''C%ED%EE%EF%F0%F1%F2%F3%F4%F5%F6%F7%F8%F9%FA%FB%FC%FD%FE%FF''"
    by code_simp
  from 1 2 show ?thesis by (rule conjI)
qed

subsection \<open>Upload\<close>

text \<open>
  C10.  An upload that reaches the storage call (a file part with a non-empty name, the
  clients built) sends one \<^verbatim>\<open>upload_blob\<close> whose content type is the guess from the file
  name when there is one; only without a guess is it the content type the client sent,
  and \<^verbatim>\<open>application/octet-stream\<close> when the client sent none.
\<close>

theorem api_upload_blob_content_type:
  assumes fpart: "map_of files ''file'' = Some f"
    and name: "filename f = Some fname" "fname \<noteq> []"
    and svc: "bsc be e = Inr svc"
    and cc: "get_container_client be (container_name_of e) = None"
  shows "snd (api_upload_blob be e guess_type files) =
           snd (ensure_container_exists be e (container_name_of e))
           @ [UploadBlob (container_name_of e) fname (file_data f)
                \<lparr>content_type =
                   Some (case guess_type fname of
                           Some t \<Rightarrow>
                             if t \<noteq> [] then t
                             else (case client_content_type f of
                                     Some c \<Rightarrow> if c \<noteq> [] then c else ''application/octet-stream''
                                   | None \<Rightarrow> ''application/octet-stream'')
                         | None \<Rightarrow>
                             (case client_content_type f of
                                Some c \<Rightarrow> if c \<noteq> [] then c else ''application/octet-stream''
                              | None \<Rightarrow> ''application/octet-stream'')),
                 content_encoding = None, content_language = None, cache_control = None\<rparr>]"
proof -
  obtain cs where en: "ensure_container_exists be e (container_name_of e)
                         = (Inr (ContainerClient (container_name_of e)), cs)"
    using ensure_container_exists_returns [OF svc cc]
    by (cases "ensure_container_exists be e (container_name_of e)") auto
  show ?thesis
    using fpart name svc en
    by (simp add: api_upload_blob_def truthy_def or_str_def Let_def
          split: option.splits)
qed

text \<open>C10 on \<^verbatim>\<open>report.pdf\<close> sent as \<^verbatim>\<open>text/html\<close>: stored as \<^verbatim>\<open>application/pdf\<close>.\<close>

theorem api_upload_blob_content_type_witness:
  "snd (api_upload_blob (be_serving blob_pdf) env_emulator guess_sample upload_form) =
     [SetContainerAccessPolicy ''uploads'' ''blob'',
      UploadBlob ''uploads'' ''report.pdf'' ''data''
        \<lparr>content_type = Some ''application/pdf'', content_encoding = None,
         content_language = None, cache_control = None\<rparr>]"
proof -
  have f: "map_of upload_form ''file''
             = Some \<lparr>filename = Some ''report.pdf'', client_content_type = Some ''text/html'',
                     file_data = ''data''\<rparr>"
    by (simp add: upload_form_def)
  have b: "bsc (be_serving blob_pdf) env_emulator = Inr sample_service"
    by (simp add: fixture_simps)
  have c: "get_container_client (be_serving blob_pdf) (container_name_of env_emulator) = None"
    by (simp add: fixture_simps)
  have n: "container_name_of env_emulator = ''uploads''"
    by (simp add: container_name_of_def env_emulator_def getenv_default_def)
  have g: "guess_sample ''report.pdf'' = Some ''application/pdf''"
    by (simp add: guess_sample_def endswith_def)
  have a: "is_azurite env_emulator"
    by (simp add: is_azurite_def env_emulator_def env_simps)
  have en: "snd (ensure_container_exists (be_serving blob_pdf) env_emulator ''uploads'')
              = [SetContainerAccessPolicy ''uploads'' ''blob'']"
    using a b by (simp add: ensure_container_exists_def set_public_if_azurite_def
                    be_serving_def)
  show ?thesis
    using api_upload_blob_content_type [where guess_type = guess_sample, OF f _ _ b c] n g en
    by simp
qed

subsection \<open>Error statuses\<close>

lemma api_update_metadata_bad_member:
  assumes "map_of kvs ''metadata'' = Some v" and "\<forall>md. v \<noteq> JObj md"
  shows "api_update_metadata be e py_str bn (Inr (JObj kvs))
           = (jsonify (JObj [(''error'', JStr ''Metadata must be a dictionary'')]) 400, [])"
  using assms by (cases v) (simp_all add: api_update_metadata_def)

text \<open>
  C2.  A metadata update whose body is a JSON array is answered with status 500: the body
  is asked for its \<^verbatim>\<open>metadata\<close> member before any check, a list has no \<^verbatim>\<open>get\<close>, and the
  handler's \<^verbatim>\<open>except\<close> turns the \<^verbatim>\<open>AttributeError\<close> into the 500 envelope.  No request
  reaches the storage service.
\<close>

theorem api_update_metadata_array_body:
  "api_update_metadata be e py_str bn (Inr (JArr xs))
     = (jsonify (JObj [(''error'', JStr (([CHR 0x27] @ ''list'' @ [CHR 0x27])
                   @ '' object has no attribute '' @ [CHR 0x27] @ ''get'' @ [CHR 0x27]))]) 500, [])
   \<and> status (fst (api_update_metadata be e py_str bn (Inr (JArr xs)))) = 500"
  by (simp add: api_update_metadata_def error_response_def jsonify_def)

text \<open>
  C3, amended.  Every exception a handler meets is answered with the envelope
  \<^verbatim>\<open>{"error": str(e)}\<close> and the one error status of that handler, whatever the exception
  is: 500 for List, Upload, Update metadata, Delete and Get URL, 404 for Get by name and
  View.  The places where a handler can raise, in the order of the code, are: building the
  storage client (all seven); building the container client (List and Upload, inside
  \<open>ensure_container_exists\<close>); the storage call of the operation; for Update metadata, reading
  the JSON body and asking a body that is no object for its \<^verbatim>\<open>metadata\<close>; for Get URL,
  \<^verbatim>\<open>int\<close> on the lifetime, the two date overflows and the signing of the token; for View,
  reading the content type of missing content settings, opening the download, and a
  carriage return or line feed in the content type or in the file name.  When none of them
  raises the status is 200.
\<close>

theorem backend_errors_by_operation:
  "(bsc be e = Inl ex \<longrightarrow>
         fst (api_list_blobs be e) = error_response ex 500)
   \<and> (bsc be e = Inr svc \<and> get_container_client be (container_name_of e) = Some ex \<longrightarrow>
         fst (api_list_blobs be e) = error_response ex 500)
   \<and> (bsc be e = Inr svc \<and> get_container_client be (container_name_of e) = None \<and> list_blobs be (container_name_of e) (if is_azurite e then [''metadata''] else [''metadata'', ''tags'']) = Inl ex \<longrightarrow>
         fst (api_list_blobs be e) = error_response ex 500)
   \<and> (bsc be e = Inr svc \<and> get_container_client be (container_name_of e) = None \<and> list_blobs be (container_name_of e) (if is_azurite e then [''metadata''] else [''metadata'', ''tags'']) = Inr bs \<longrightarrow>
         status (fst (api_list_blobs be e)) = 200)
   \<and> (bsc be e = Inl ex \<longrightarrow>
         api_get_blob be e bn = error_response ex 404)
   \<and> (bsc be e = Inr svc \<and> get_blob_properties be (container_name_of e) bn = Inl ex \<longrightarrow>
         api_get_blob be e bn = error_response ex 404)
   \<and> (bsc be e = Inr svc \<and> get_blob_properties be (container_name_of e) bn = Inr props \<longrightarrow>
         status (api_get_blob be e bn) = 200)
   \<and> (map_of files ''file'' = Some f \<and> truthy (filename f) \<and> bsc be e = Inl ex \<longrightarrow>
         fst (api_upload_blob be e guess_type files) = error_response ex 500)
   \<and> (map_of files ''file'' = Some f \<and> truthy (filename f) \<and> bsc be e = Inr svc \<and> get_container_client be (container_name_of e) = Some ex \<longrightarrow>
         fst (api_upload_blob be e guess_type files) = error_response ex 500)
   \<and> (map_of files ''file'' = Some f \<and> truthy (filename f) \<and> bsc be e = Inr svc
       \<and> get_container_client be (container_name_of e) = None \<and> (\<forall>st. upload_blob be (container_name_of e) (the (filename f)) (file_data f) st = Some ex) \<longrightarrow>
         fst (api_upload_blob be e guess_type files) = error_response ex 500)
   \<and> (map_of files ''file'' = Some f \<and> truthy (filename f) \<and> bsc be e = Inr svc
       \<and> get_container_client be (container_name_of e) = None \<and> (\<forall>st. upload_blob be (container_name_of e) (the (filename f)) (file_data f) st = None) \<longrightarrow>
         status (fst (api_upload_blob be e guess_type files)) = 200)
   \<and> fst (api_update_metadata be e py_str bn (Inl ex)) = error_response ex 500
   \<and> ((\<forall>kvs. j \<noteq> JObj kvs) \<longrightarrow>
         fst (api_update_metadata be e py_str bn (Inr j)) = error_response (AttributeError ([CHR 0x27] @ type_name j @ [CHR 0x27] @ '' object has no attribute '' @ [CHR 0x27] @ ''get'' @ [CHR 0x27])) 500)
   \<and> ((case map_of kvs ''metadata'' of None \<Rightarrow> JObj [] | Some v \<Rightarrow> v) = JObj md
       \<and> bsc be e = Inl ex \<longrightarrow>
         fst (api_update_metadata be e py_str bn (Inr (JObj kvs))) = error_response ex 500)
   \<and> ((case map_of kvs ''metadata'' of None \<Rightarrow> JObj [] | Some v \<Rightarrow> v) = JObj md
       \<and> bsc be e = Inr svc
       \<and> set_blob_metadata be (container_name_of e) bn (map (\<lambda>(k, v). (k, py_str v)) md) = Some ex \<longrightarrow>
         fst (api_update_metadata be e py_str bn (Inr (JObj kvs))) = error_response ex 500)
   \<and> ((case map_of kvs ''metadata'' of None \<Rightarrow> JObj [] | Some v \<Rightarrow> v) = JObj md
       \<and> bsc be e = Inr svc \<and> set_blob_metadata be (container_name_of e) bn (map (\<lambda>(k, v). (k, py_str v)) md) = None \<longrightarrow>
         status (fst (api_update_metadata be e py_str bn (Inr (JObj kvs)))) = 200)
   \<and> (bsc be e = Inl ex \<longrightarrow>
         fst (api_delete_blob be e bn) = error_response ex 500)
   \<and> (bsc be e = Inr svc \<and> delete_blob be (container_name_of e) bn = Some ex \<longrightarrow>
         fst (api_delete_blob be e bn) = error_response ex 500)
   \<and> (bsc be e = Inr svc \<and> delete_blob be (container_name_of e) bn = None \<longrightarrow>
         status (fst (api_delete_blob be e bn)) = 200)
   \<and> (bsc be e = Inl ex \<longrightarrow>
         api_get_blob_url be e py_int now bn = error_response ex 500)
   \<and> (bsc be e = Inr svc \<and> sas_minutes e py_int None = Inl ex \<longrightarrow>
         api_get_blob_url be e py_int now bn = error_response ex 500)
   \<and> (bsc be e = Inr svc \<and> sas_minutes e py_int None = Inr m \<and> timedelta_minutes m = Inl ex \<longrightarrow>
         api_get_blob_url be e py_int now bn = error_response ex 500)
   \<and> (bsc be e = Inr svc \<and> sas_minutes e py_int None = Inr m
       \<and> timedelta_minutes m = Inr d \<and> datetime_add now d = Inl ex \<longrightarrow>
         api_get_blob_url be e py_int now bn = error_response ex 500)
   \<and> (bsc be e = Inr svc \<and> sas_minutes e py_int None = Inr m
       \<and> timedelta_minutes m = Inr d \<and> datetime_add now d = Inr expiry \<and> generate_blob_sas be (sas_request e svc (container_name_of e) bn expiry) = Inl ex \<longrightarrow>
         api_get_blob_url be e py_int now bn = error_response ex 500)
   \<and> (bsc be e = Inr svc \<and> sas_minutes e py_int None = Inr m
       \<and> timedelta_minutes m = Inr d \<and> datetime_add now d = Inr expiry \<and> generate_blob_sas be (sas_request e svc (container_name_of e) bn expiry) = Inr token \<longrightarrow>
         status (api_get_blob_url be e py_int now bn) = 200)
   \<and> (bsc be e = Inl ex \<longrightarrow>
         api_view_blob be e guess_type bn = error_response ex 404)
   \<and> (bsc be e = Inr svc \<and> get_blob_properties be (container_name_of e) bn = Inl ex \<longrightarrow>
         api_view_blob be e guess_type bn = error_response ex 404)
   \<and> (bsc be e = Inr svc \<and> get_blob_properties be (container_name_of e) bn = Inr props \<and> view_content_type guess_type bn props = Inl ex \<longrightarrow>
         api_view_blob be e guess_type bn = error_response ex 404)
   \<and> (bsc be e = Inr svc \<and> get_blob_properties be (container_name_of e) bn = Inr props
       \<and> view_content_type guess_type bn props = Inr ctype \<and> download_blob be (container_name_of e) bn = Inl ex \<longrightarrow>
         api_view_blob be e guess_type bn = error_response ex 404)
   \<and> (bsc be e = Inr svc \<and> get_blob_properties be (container_name_of e) bn = Inr props
       \<and> view_content_type guess_type bn props = Inr ctype
       \<and> download_blob be (container_name_of e) bn = Inr chunks \<and> header_value_error ctype = Some ex \<longrightarrow>
         api_view_blob be e guess_type bn = error_response ex 404)
   \<and> (bsc be e = Inr svc \<and> get_blob_properties be (container_name_of e) bn = Inr props
       \<and> view_content_type guess_type bn props = Inr ctype
       \<and> download_blob be (container_name_of e) bn = Inr chunks
       \<and> header_value_error ctype = None \<and> header_value_error (''inline; filename='' @ [CHR 0x22] @ basename bn @ [CHR 0x22] @ ''; filename*=UTF-8'' @ [CHR 0x27, CHR 0x27] @ quote (basename bn)) = Some ex \<longrightarrow>
         api_view_blob be e guess_type bn = error_response ex 404)
   \<and> (bsc be e = Inr svc \<and> get_blob_properties be (container_name_of e) bn = Inr props
       \<and> view_content_type guess_type bn props = Inr ctype
       \<and> download_blob be (container_name_of e) bn = Inr chunks
       \<and> header_value_error ctype = None \<and> header_value_error (''inline; filename='' @ [CHR 0x22] @ basename bn @ [CHR 0x22] @ ''; filename*=UTF-8'' @ [CHR 0x27, CHR 0x27] @ quote (basename bn)) = None \<longrightarrow>
         status (api_view_blob be e guess_type bn) = 200)"
  (is "?L1 \<and> ?L2 \<and> ?L3 \<and> ?L4 \<and> ?G1 \<and> ?G2 \<and> ?G3 \<and> ?U1 \<and> ?U2 \<and> ?U3 \<and> ?U4 \<and> ?M1 \<and> ?M2 \<and> ?M3 \<and> ?M4 \<and> ?M5 \<and> ?D1 \<and> ?D2 \<and> ?D3 \<and> ?S1 \<and> ?S2 \<and> ?S3 \<and> ?S4 \<and> ?S5 \<and> ?S6 \<and> ?V1 \<and> ?V2 \<and> ?V3 \<and> ?V4 \<and> ?V5 \<and> ?V6 \<and> ?V7")
proof -
  have l1: ?L1
    by (simp add: api_list_blobs_def)
  have l2: ?L2
    using ensure_container_exists_pair [of be e svc "container_name_of e"] ensure_container_exists_no_container_client [of be e svc "container_name_of e"] ensure_container_exists_no_client [of be e _ "container_name_of e"] by (auto simp add: api_list_blobs_def Let_def)
  have l3: ?L3
    using ensure_container_exists_pair [of be e svc "container_name_of e"] ensure_container_exists_no_container_client [of be e svc "container_name_of e"] ensure_container_exists_no_client [of be e _ "container_name_of e"] by (auto simp add: api_list_blobs_def Let_def)
  have l4: ?L4
    using ensure_container_exists_pair [of be e svc "container_name_of e"] ensure_container_exists_no_container_client [of be e svc "container_name_of e"] ensure_container_exists_no_client [of be e _ "container_name_of e"] by (auto simp add: api_list_blobs_def Let_def jsonify_def)
  have g1: ?G1
    by (simp add: api_get_blob_def)
  have g2: ?G2
    by (simp add: api_get_blob_def)
  have g3: ?G3
    by (simp add: api_get_blob_def jsonify_def)
  have u1: ?U1
    by (simp add: api_upload_blob_def)
  have u2: ?U2
    using ensure_container_exists_pair [of be e svc "container_name_of e"] ensure_container_exists_no_container_client [of be e svc "container_name_of e"] ensure_container_exists_no_client [of be e _ "container_name_of e"] by (auto simp add: api_upload_blob_def Let_def)
  have u3: ?U3
    using ensure_container_exists_pair [of be e svc "container_name_of e"] ensure_container_exists_no_container_client [of be e svc "container_name_of e"] ensure_container_exists_no_client [of be e _ "container_name_of e"] by (auto simp add: api_upload_blob_def Let_def)
  have u4: ?U4
    using ensure_container_exists_pair [of be e svc "container_name_of e"] ensure_container_exists_no_container_client [of be e svc "container_name_of e"] ensure_container_exists_no_client [of be e _ "container_name_of e"] by (auto simp add: api_upload_blob_def Let_def jsonify_def)
  have m1: ?M1
    by (simp add: api_update_metadata_def)
  have m2: ?M2
    by (cases j) (simp_all add: api_update_metadata_def)
  have m3: ?M3
    by (simp add: api_update_metadata_def)
  have m4: ?M4
    by (simp add: api_update_metadata_def)
  have m5: ?M5
    by (simp add: api_update_metadata_def jsonify_def)
  have d1: ?D1
    by (simp add: api_delete_blob_def)
  have d2: ?D2
    by (simp add: api_delete_blob_def)
  have d3: ?D3
    by (simp add: api_delete_blob_def jsonify_def)
  have s1: ?S1
    by (simp add: api_get_blob_url_def make_sas_def)
  have s2: ?S2
    by (simp add: api_get_blob_url_def make_sas_def)
  have s3: ?S3
    by (simp add: api_get_blob_url_def make_sas_def)
  have s4: ?S4
    by (simp add: api_get_blob_url_def make_sas_def)
  have s5: ?S5
    by (simp add: api_get_blob_url_def make_sas_def)
  have s6: ?S6
    by (simp add: api_get_blob_url_def make_sas_def jsonify_def)
  have v1: ?V1
    by (simp add: api_view_blob_def)
  have v2: ?V2
    by (simp add: api_view_blob_def)
  have v3: ?V3
    by (simp add: api_view_blob_def)
  have v4: ?V4
    by (simp add: api_view_blob_def)
  have v5: ?V5
    by (simp add: api_view_blob_def)
  have v6: ?V6
    by (simp add: api_view_blob_def Let_def)
  have v7: ?V7
    by (simp add: api_view_blob_def Let_def)
  from l1 l2 l3 l4 g1 g2 g3 u1 u2 u3 u4 m1 m2 m3 m4 m5 d1 d2 d3 s1 s2 s3 s4 s5 s6 v1 v2 v3 v4 v5 v6 v7 show ?thesis
    by (intro conjI)
qed

text \<open>
  C3 on a backend that refuses every request, on a blank connection string, on a
  connection string without account key (the signing raises), on a blob whose name holds
  a carriage return and a line feed, and on a backend that refuses the download.
\<close>

theorem backend_errors_by_operation_witness:
  "fst (api_list_blobs be_unreachable env_azurite) = error_response refused 500
   \<and> api_get_blob be_unreachable env_azurite ''report.pdf'' = error_response refused 404
   \<and> fst (api_upload_blob be_unreachable env_azurite guess_sample upload_form)
        = error_response refused 500
   \<and> fst (api_update_metadata be_unreachable env_azurite type_name ''report.pdf''
             (Inr (JObj [(''metadata'', JObj [(''k'', JInt 1)])]))) = error_response refused 500
   \<and> fst (api_delete_blob be_unreachable env_azurite ''report.pdf'') = error_response refused 500
   \<and> api_view_blob be_unreachable env_azurite guess_sample ''report.pdf''
        = error_response refused 404
   \<and> fst (api_list_blobs (be_serving blob_pdf) env_blank) = error_response (ValueError ''Connection string is either blank or malformed.'') 500
   \<and> api_get_blob (be_serving blob_pdf) env_blank ''report.pdf'' = error_response (ValueError ''Connection string is either blank or malformed.'') 404
   \<and> fst (api_upload_blob (be_serving blob_pdf) env_blank guess_sample upload_form)
        = error_response (ValueError ''Connection string is either blank or malformed.'') 500
   \<and> fst (api_update_metadata (be_serving blob_pdf) env_blank type_name ''report.pdf''
             (Inr (JObj [(''metadata'', JObj [(''k'', JInt 1)])]))) = error_response (ValueError ''Connection string is either blank or malformed.'') 500
   \<and> fst (api_delete_blob (be_serving blob_pdf) env_blank ''report.pdf'')
        = error_response (ValueError ''Connection string is either blank or malformed.'') 500
   \<and> api_get_blob_url (be_serving blob_pdf) env_blank py_int_digits 1762257600000000 ''report.pdf''
        = error_response (ValueError ''Connection string is either blank or malformed.'') 500
   \<and> api_view_blob (be_serving blob_pdf) env_blank guess_sample ''report.pdf''
        = error_response (ValueError ''Connection string is either blank or malformed.'') 404
   \<and> api_get_blob_url (be_serving blob_pdf) env_emulator py_int_digits 1762257600000000 ''report.pdf''
        = error_response (ValueError ''Either user_delegation_key or account_key must be provided.'') 500
   \<and> api_view_blob (be_serving blob_crlf) env_azurite guess_sample (blob_name blob_crlf)
        = error_response (ValueError ''Header values must not contain newline characters.'') 404
   \<and> api_view_blob be_download_refused env_azurite guess_sample ''report.pdf''
        = error_response refused 404"
proof -
  have n: "container_name_of env_azurite = ''uploads''"
    "container_name_of env_blank = ''uploads''"
    "container_name_of env_emulator = ''uploads''"
    by (simp_all add: container_name_of_def env_azurite_def env_blank_def env_emulator_def
          getenv_default_def)
  have f: "map_of upload_form ''file''
             = Some \<lparr>filename = Some ''report.pdf'', client_content_type = Some ''text/html'',
                   file_data = ''data''\<rparr>"
    by (simp add: upload_form_def)
  have c: "view_content_type guess_sample bn blob_pdf = Inr ''application/pdf''"
    "view_content_type guess_sample bn blob_crlf = Inr ''application/pdf''" for bn
    by (simp_all add: view_content_type_def blob_crlf_def blob_pdf_def blob_untyped_def md_of_def
          md_get_def truthy_def)
  have 1: "bsc be_unreachable env_azurite = Inr sample_service"
    by (simp add: be_unreachable_def sample_connect_def bsc_def env_azurite_def getenv_def)
  have 2: "bsc (be_serving blob_pdf) env_blank = Inl (ValueError ''Connection string is either blank or malformed.'')"
    by (simp add: be_serving_def sample_connect_def bsc_def env_blank_def getenv_def)
  have 3: "bsc (be_serving blob_pdf) env_emulator = Inr sample_service"
    by (simp add: fixture_simps)
  have 4: "bsc (be_serving blob_crlf) env_azurite = Inr sample_service"
    by (simp add: be_serving_def sample_connect_def bsc_def env_azurite_def getenv_def)
  have 5: "bsc be_download_refused env_azurite = Inr sample_service"
    by (simp add: be_download_refused_def be_serving_def sample_connect_def bsc_def
          env_azurite_def getenv_def)
  have a: "fst (api_list_blobs be_unreachable env_azurite) = error_response refused 500
   \<and> api_get_blob be_unreachable env_azurite ''report.pdf'' = error_response refused 404
   \<and> fst (api_upload_blob be_unreachable env_azurite guess_sample upload_form)
        = error_response refused 500
   \<and> fst (api_update_metadata be_unreachable env_azurite type_name ''report.pdf''
             (Inr (JObj [(''metadata'', JObj [(''k'', JInt 1)])]))) = error_response refused 500
   \<and> fst (api_delete_blob be_unreachable env_azurite ''report.pdf'') = error_response refused 500
   \<and> api_view_blob be_unreachable env_azurite guess_sample ''report.pdf''
        = error_response refused 404"
    using backend_errors_by_operation [where be = be_unreachable and e = env_azurite
        and ex = refused and svc = sample_service and bn = "''report.pdf''"
        and guess_type = guess_sample and files = upload_form and py_str = type_name
        and f = "\<lparr>filename = Some ''report.pdf'', client_content_type = Some ''text/html'',
                   file_data = ''data''\<rparr>"
        and kvs = "[(''metadata'', JObj [(''k'', JInt 1)])]" and md = "[(''k'', JInt 1)]"]
      1 n f
    by (simp add: be_unreachable_def truthy_def)
  have b: "fst (api_list_blobs (be_serving blob_pdf) env_blank) = error_response (ValueError ''Connection string is either blank or malformed.'') 500
   \<and> api_get_blob (be_serving blob_pdf) env_blank ''report.pdf'' = error_response (ValueError ''Connection string is either blank or malformed.'') 404
   \<and> fst (api_upload_blob (be_serving blob_pdf) env_blank guess_sample upload_form)
        = error_response (ValueError ''Connection string is either blank or malformed.'') 500
   \<and> fst (api_update_metadata (be_serving blob_pdf) env_blank type_name ''report.pdf''
             (Inr (JObj [(''metadata'', JObj [(''k'', JInt 1)])]))) = error_response (ValueError ''Connection string is either blank or malformed.'') 500
   \<and> fst (api_delete_blob (be_serving blob_pdf) env_blank ''report.pdf'')
        = error_response (ValueError ''Connection string is either blank or malformed.'') 500
   \<and> api_get_blob_url (be_serving blob_pdf) env_blank py_int_digits 1762257600000000 ''report.pdf''
        = error_response (ValueError ''Connection string is either blank or malformed.'') 500
   \<and> api_view_blob (be_serving blob_pdf) env_blank guess_sample ''report.pdf''
        = error_response (ValueError ''Connection string is either blank or malformed.'') 404"
    using backend_errors_by_operation [where be = "be_serving blob_pdf" and e = env_blank
        and ex = "ValueError ''Connection string is either blank or malformed.''" and bn = "''report.pdf''"
        and guess_type = guess_sample and files = upload_form and py_str = type_name
        and f = "\<lparr>filename = Some ''report.pdf'', client_content_type = Some ''text/html'',
                   file_data = ''data''\<rparr>"
        and kvs = "[(''metadata'', JObj [(''k'', JInt 1)])]" and md = "[(''k'', JInt 1)]"
        and py_int = py_int_digits and now = 1762257600000000]
      2 f
    by (simp add: truthy_def)
  have m: "sas_minutes env_emulator py_int_digits None = Inr 5"
    by (simp add: sas_minutes_def py_int_digits_def env_emulator_def getenv_default_def)
  have d: "datetime_add 1762257600000000 300000000 = Inr 1762257900000000"
    by (simp add: datetime_add_def datetime_min_def datetime_max_def)
  have g: "generate_blob_sas (be_serving blob_pdf)
             (sas_request env_emulator sample_service ''uploads'' ''report.pdf'' 1762257900000000)
             = Inl (ValueError ''Either user_delegation_key or account_key must be provided.'')"
    by (simp add: be_serving_def sample_sas_def sas_request_def account_key_from_conn_str_def
          parse_conn_str_def parts_get_def split1_def env_emulator_def env_simps)
  have c': "api_get_blob_url (be_serving blob_pdf) env_emulator py_int_digits 1762257600000000 ''report.pdf''
        = error_response (ValueError ''Either user_delegation_key or account_key must be provided.'') 500"
    using backend_errors_by_operation [where be = "be_serving blob_pdf" and e = env_emulator
        and ex = "ValueError ''Either user_delegation_key or account_key must be provided.''" and svc = sample_service and bn = "''report.pdf''"
        and py_int = py_int_digits and now = 1762257600000000 and m = 5 and d = 300000000
        and expiry = 1762257900000000]
      3 n m d g timedelta_five
    by simp
  have h: "header_value_error ''application/pdf'' = None"
    "header_value_error
       (''inline; filename='' @ [CHR 0x22] @ basename (blob_name blob_crlf) @ [CHR 0x22]
          @ ''; filename*=UTF-8'' @ [CHR 0x27, CHR 0x27] @ quote (basename (blob_name blob_crlf)))
       = Some (ValueError ''Header values must not contain newline characters.'')"
    by (simp_all add: header_value_error_def has_newline_def blob_crlf_def basename_def)
  have d': "api_view_blob (be_serving blob_crlf) env_azurite guess_sample (blob_name blob_crlf)
        = error_response (ValueError ''Header values must not contain newline characters.'') 404"
    using backend_errors_by_operation [where be = "be_serving blob_crlf" and e = env_azurite
        and ex = "ValueError ''Header values must not contain newline characters.''" and svc = sample_service and bn = "blob_name blob_crlf"
        and guess_type = guess_sample and props = blob_crlf and ctype = "''application/pdf''"
        and chunks = "[''chunk1'', ''chunk2'']"]
      4 n c h
    by (simp add: be_serving_def)
  have e': "api_view_blob be_download_refused env_azurite guess_sample ''report.pdf''
        = error_response refused 404"
    using backend_errors_by_operation [where be = be_download_refused and e = env_azurite
        and ex = refused and svc = sample_service and bn = "''report.pdf''"
        and guess_type = guess_sample and props = blob_pdf and ctype = "''application/pdf''"]
      5 n c
    by (simp add: be_download_refused_def be_serving_def)
  from a b c' d' e' show ?thesis by (intro conjI) simp_all
qed

text \<open>
  C3 as stated fails for Get by name and View: with the backend refusing the connection,
  which is no not-found case, both answer 404.
\<close>

theorem backend_errors_by_operation_counterexample:
  "get_blob_properties be_unreachable ''uploads'' ''report.pdf''
     = Inl (BackendError ''connection refused'')
   \<and> status (api_get_blob be_unreachable env_azurite ''report.pdf'') = 404
   \<and> status (api_view_blob be_unreachable env_azurite guess_sample ''report.pdf'') = 404"
  by (simp add: api_get_blob_def api_view_blob_def error_response_def jsonify_def
        be_unreachable_def sample_connect_def sample_service_def refused_def bsc_def
        container_name_of_def env_azurite_def getenv_def getenv_default_def)


subsection \<open>View\<close>

lemma has_newline_append: "has_newline (a @ b) = (has_newline a \<or> has_newline b)"
  by (auto simp add: has_newline_def)

lemma quote_no_newline: "\<not> has_newline (quote s)"
proof -
  have "CHR 0x0D \<notin> insert CHR ''%'' always_safe" and "CHR 0x0A \<notin> insert CHR ''%'' always_safe"
    by (simp_all add: always_safe_def)
  then show ?thesis
    using quote_alphabet [of s] by (auto simp add: has_newline_def)
qed

lemma disposition_error:
  "header_value_error
     (''inline; filename='' @ [CHR 0x22] @ fname @ [CHR 0x22]
        @ ''; filename*=UTF-8'' @ [CHR 0x27, CHR 0x27] @ quote fname)
     = header_value_error fname"
proof -
  have "has_newline (''inline; filename='' @ [CHR 0x22] @ fname @ [CHR 0x22]
          @ ''; filename*=UTF-8'' @ [CHR 0x27, CHR 0x27] @ quote fname) = has_newline fname"
    using quote_no_newline [of fname]
    by (simp add: has_newline_append) (simp add: has_newline_def)
  then show ?thesis
    by (simp only: header_value_error_def)
qed

lemmas disposition_error_cons = disposition_error [simplified]

lemma header_value_error_cases:
  "header_value_error v
     = (if has_newline v
        then Some (ValueError ''Header values must not contain newline characters.'')
        else None)"
  by (simp add: header_value_error_def)

lemma api_view_blob_ok:
  assumes "bsc be e = Inr svc"
    and "get_blob_properties be (container_name_of e) bn = Inr props"
    and "view_content_type guess_type bn props = Inr ctype"
    and "download_blob be (container_name_of e) bn = Inr chunks"
    and "\<not> has_newline ctype" and "\<not> has_newline (basename bn)"
  shows "api_view_blob be e guess_type bn =
           \<lparr>status = 200,
            mimetype = ctype,
            headers =
              [(''Content-Disposition'',
                ''inline; filename='' @ [CHR 0x22] @ basename bn @ [CHR 0x22]
                  @ ''; filename*=UTF-8'' @ [CHR 0x27, CHR 0x27] @ quote (basename bn)),
               (''Cache-Control'', ''public, max-age=3600''),
               (''X-Content-Type-Options'', ''nosniff'')]
              @ (case blob_size props of
                   None \<Rightarrow> []
                 | Some n \<Rightarrow> if n \<noteq> 0 then [(''Content-Length'', str_nat n)] else []),
            body = StreamBody chunks\<rparr>"
proof -
  have "header_value_error ctype = None" and "header_value_error (basename bn) = None"
    using assms(5,6) by (simp_all add: header_value_error_cases)
  then show ?thesis
    using assms(1-4) by (simp add: api_view_blob_def Let_def disposition_error_cons)
qed

text \<open>
  C9, amended.  With the client built: when the properties read raises (the blob does not
  exist) View answers 404 with the error envelope.  When the properties are read, a content
  type is resolved and the download starts, and neither the resolved type nor the last
  segment of the name holds a carriage return or a line feed, View answers 200 with the
  chunks as body, the resolved type as mimetype, a \<^verbatim>\<open>Content-Disposition\<close> that begins with
  \<^verbatim>\<open>inline\<close>, \<^verbatim>\<open>Cache-Control: public, max-age=3600\<close>, and a \<^verbatim>\<open>Content-Length\<close> exactly when
  the size is known and not zero.  When one of the two holds a carriage return or a line
  feed, the header is refused and View answers 404 although the blob exists.
\<close>

theorem api_view_blob_stream:
  assumes svc: "bsc be e = Inr svc"
  shows "(get_blob_properties be (container_name_of e) bn = Inl ex \<longrightarrow>
            api_view_blob be e guess_type bn = error_response ex 404
            \<and> status (api_view_blob be e guess_type bn) = 404)
       \<and> (get_blob_properties be (container_name_of e) bn = Inr props
            \<and> view_content_type guess_type bn props = Inr ctype
            \<and> download_blob be (container_name_of e) bn = Inr chunks
            \<and> \<not> has_newline ctype \<and> \<not> has_newline (basename bn) \<longrightarrow>
            status (api_view_blob be e guess_type bn) = 200
            \<and> mimetype (api_view_blob be e guess_type bn) = ctype
            \<and> body (api_view_blob be e guess_type bn) = StreamBody chunks
            \<and> map_of (headers (api_view_blob be e guess_type bn)) ''Content-Disposition''
                = Some (''inline; filename='' @ [CHR 0x22] @ basename bn @ [CHR 0x22]
                         @ ''; filename*=UTF-8'' @ [CHR 0x27, CHR 0x27] @ quote (basename bn))
            \<and> map_of (headers (api_view_blob be e guess_type bn)) ''Cache-Control''
                = Some ''public, max-age=3600''
            \<and> map_of (headers (api_view_blob be e guess_type bn)) ''Content-Length''
                = (case blob_size props of
                     None \<Rightarrow> None
                   | Some n \<Rightarrow> if n = 0 then None else Some (str_nat n)))
       \<and> (get_blob_properties be (container_name_of e) bn = Inr props
            \<and> view_content_type guess_type bn props = Inr ctype
            \<and> download_blob be (container_name_of e) bn = Inr chunks
            \<and> (has_newline ctype \<or> has_newline (basename bn)) \<longrightarrow>
            api_view_blob be e guess_type bn = error_response (ValueError ''Header values must not contain newline characters.'') 404
            \<and> status (api_view_blob be e guess_type bn) = 404)"
  (is "?N \<and> ?S \<and> ?H")
proof -
  have n: ?N
    using svc by (simp add: api_view_blob_def error_response_def jsonify_def)
  have s: ?S
  proof (intro impI, elim conjE)
    assume "get_blob_properties be (container_name_of e) bn = Inr props"
      and "view_content_type guess_type bn props = Inr ctype"
      and "download_blob be (container_name_of e) bn = Inr chunks"
      and "\<not> has_newline ctype" and "\<not> has_newline (basename bn)"
    then have "api_view_blob be e guess_type bn =
           \<lparr>status = 200,
            mimetype = ctype,
            headers =
              [(''Content-Disposition'',
                ''inline; filename='' @ [CHR 0x22] @ basename bn @ [CHR 0x22]
                  @ ''; filename*=UTF-8'' @ [CHR 0x27, CHR 0x27] @ quote (basename bn)),
               (''Cache-Control'', ''public, max-age=3600''),
               (''X-Content-Type-Options'', ''nosniff'')]
              @ (case blob_size props of
                   None \<Rightarrow> []
                 | Some n \<Rightarrow> if n \<noteq> 0 then [(''Content-Length'', str_nat n)] else []),
            body = StreamBody chunks\<rparr>"
      using svc by (intro api_view_blob_ok)
    then show "status (api_view_blob be e guess_type bn) = 200
            \<and> mimetype (api_view_blob be e guess_type bn) = ctype
            \<and> body (api_view_blob be e guess_type bn) = StreamBody chunks
            \<and> map_of (headers (api_view_blob be e guess_type bn)) ''Content-Disposition''
                = Some (''inline; filename='' @ [CHR 0x22] @ basename bn @ [CHR 0x22]
                         @ ''; filename*=UTF-8'' @ [CHR 0x27, CHR 0x27] @ quote (basename bn))
            \<and> map_of (headers (api_view_blob be e guess_type bn)) ''Cache-Control''
                = Some ''public, max-age=3600''
            \<and> map_of (headers (api_view_blob be e guess_type bn)) ''Content-Length''
                = (case blob_size props of
                     None \<Rightarrow> None
                   | Some n \<Rightarrow> if n = 0 then None else Some (str_nat n))"
      by (simp split: option.splits)
  qed
  have h: ?H
  proof (intro impI, elim conjE)
    assume p: "get_blob_properties be (container_name_of e) bn = Inr props"
      "view_content_type guess_type bn props = Inr ctype"
      "download_blob be (container_name_of e) bn = Inr chunks"
      and nl: "has_newline ctype \<or> has_newline (basename bn)"
    have "api_view_blob be e guess_type bn
            = error_response (ValueError ''Header values must not contain newline characters.'') 404"
    proof (cases "has_newline ctype")
      case True
      then have "header_value_error ctype
                   = Some (ValueError ''Header values must not contain newline characters.'')"
        by (simp add: header_value_error_cases)
      then show ?thesis
        using svc p by (simp add: api_view_blob_def)
    next
      case False
      then have "header_value_error ctype = None"
        and "header_value_error (basename bn)
               = Some (ValueError ''Header values must not contain newline characters.'')"
        using nl by (simp_all add: header_value_error_cases)
      then show ?thesis
        using svc p by (simp add: api_view_blob_def Let_def disposition_error_cons)
    qed
    then show "api_view_blob be e guess_type bn
                 = error_response (ValueError ''Header values must not contain newline characters.'') 404
            \<and> status (api_view_blob be e guess_type bn) = 404"
      by (simp add: error_response_def jsonify_def)
  qed
  from n s h show ?thesis by (intro conjI)
qed

text \<open>
  C9 on a five-byte \<^verbatim>\<open>report.pdf\<close>, on a backend that does not find the blob, and on a
  blob whose name holds a carriage return and a line feed.
\<close>

theorem api_view_blob_stream_witness:
  "status (api_view_blob (be_serving blob_pdf) env_emulator guess_sample ''report.pdf'') = 200
   \<and> mimetype (api_view_blob (be_serving blob_pdf) env_emulator guess_sample ''report.pdf'')
        = ''application/pdf''
   \<and> body (api_view_blob (be_serving blob_pdf) env_emulator guess_sample ''report.pdf'')
        = StreamBody [''chunk1'', ''chunk2'']
   \<and> map_of (headers (api_view_blob (be_serving blob_pdf) env_emulator guess_sample ''report.pdf''))
        ''Content-Length'' = Some ''5''
   \<and> status (api_view_blob be_unreachable env_emulator guess_sample ''report.pdf'') = 404
   \<and> status (api_view_blob (be_serving blob_crlf) env_emulator guess_sample
               (blob_name blob_crlf)) = 404"
proof -
  have n: "container_name_of env_emulator = ''uploads''"
    by (simp add: container_name_of_def env_emulator_def getenv_default_def)
  have c: "view_content_type guess_sample bn blob_pdf = Inr ''application/pdf''"
    "view_content_type guess_sample bn blob_crlf = Inr ''application/pdf''" for bn
    by (simp_all add: view_content_type_def blob_crlf_def blob_pdf_def blob_untyped_def md_of_def
          md_get_def truthy_def)
  have 1: "bsc (be_serving blob_pdf) env_emulator = Inr sample_service"
    by (simp add: fixture_simps)
  have 2: "bsc be_unreachable env_emulator = Inr sample_service"
    by (simp add: fixture_simps)
  have 3: "bsc (be_serving blob_crlf) env_emulator = Inr sample_service"
    by (simp add: fixture_simps)
  have z: "blob_size blob_pdf = Some 5"
    by (simp add: blob_pdf_def blob_untyped_def)
  have g: "get_blob_properties (be_serving b) ''uploads'' bn = Inr b" for b bn
    by (simp add: be_serving_def)
  have d: "download_blob (be_serving b) ''uploads'' bn = Inr [''chunk1'', ''chunk2'']" for b bn
    by (simp add: be_serving_def)
  have r: "get_blob_properties be_unreachable ''uploads'' ''report.pdf'' = Inl refused"
    by (simp add: be_unreachable_def)
  have five: "str_nat 5 = ''5''"
    by (simp add: str_nat.simps)
  have nl: "\<not> has_newline ''application/pdf''" "\<not> has_newline (basename ''report.pdf'')"
    "has_newline (basename (blob_name blob_crlf))"
    by (simp_all add: has_newline_def basename_def blob_crlf_def)
  have a: "status (api_view_blob (be_serving blob_pdf) env_emulator guess_sample ''report.pdf'') = 200
   \<and> mimetype (api_view_blob (be_serving blob_pdf) env_emulator guess_sample ''report.pdf'')
        = ''application/pdf''
   \<and> body (api_view_blob (be_serving blob_pdf) env_emulator guess_sample ''report.pdf'')
        = StreamBody [''chunk1'', ''chunk2'']
   \<and> map_of (headers (api_view_blob (be_serving blob_pdf) env_emulator guess_sample ''report.pdf''))
        ''Content-Length'' = Some ''5''"
    using api_view_blob_stream [OF 1, where bn = "''report.pdf''" and guess_type = guess_sample
        and props = blob_pdf and ctype = "''application/pdf''" and chunks = "[''chunk1'', ''chunk2'']"]
      n c z g d five nl
    by simp
  have b: "status (api_view_blob be_unreachable env_emulator guess_sample ''report.pdf'') = 404"
    using api_view_blob_stream [OF 2, where bn = "''report.pdf''" and guess_type = guess_sample
        and ex = refused] n r
    by (simp add: error_response_def jsonify_def)
  have h: "status (api_view_blob (be_serving blob_crlf) env_emulator guess_sample
               (blob_name blob_crlf)) = 404"
    using api_view_blob_stream [OF 3, where bn = "blob_name blob_crlf"
        and guess_type = guess_sample and props = blob_crlf and ctype = "''application/pdf''"
        and chunks = "[''chunk1'', ''chunk2'']"]
      n c g d nl
    by (simp add: error_response_def jsonify_def)
  from a b h show ?thesis by simp
qed

text \<open>
  C9 as stated fails for an empty blob: its size is known to be zero, View answers 200 and
  sends no \<^verbatim>\<open>Content-Length\<close>.
\<close>

theorem api_view_blob_stream_counterexample:
  "blob_size blob_empty = Some 0
   \<and> get_blob_properties (be_serving blob_empty) ''uploads'' ''empty.txt'' = Inr blob_empty
   \<and> status (api_view_blob (be_serving blob_empty) env_emulator guess_sample ''empty.txt'') = 200
   \<and> map_of (headers (api_view_blob (be_serving blob_empty) env_emulator guess_sample ''empty.txt''))
        ''Content-Length'' = None"
proof -
  have n: "container_name_of env_emulator = ''uploads''"
    by (simp add: container_name_of_def env_emulator_def getenv_default_def)
  have 1: "bsc (be_serving blob_empty) env_emulator = Inr sample_service"
    by (simp add: fixture_simps)
  have g: "get_blob_properties (be_serving blob_empty) (container_name_of env_emulator)
             ''empty.txt'' = Inr blob_empty"
    by (simp add: be_serving_def)
  have c: "view_content_type guess_sample ''empty.txt'' blob_empty = Inr ''text/plain''"
    by (simp add: view_content_type_def blob_empty_def md_of_def md_get_def truthy_def)
  have d: "download_blob (be_serving blob_empty) (container_name_of env_emulator) ''empty.txt''
             = Inr [''chunk1'', ''chunk2'']"
    by (simp add: be_serving_def)
  have nl: "\<not> has_newline ''text/plain''" "\<not> has_newline (basename ''empty.txt'')"
    by (simp_all add: has_newline_def basename_def)
  have z: "blob_size blob_empty = Some 0"
    by (simp add: blob_empty_def)
  show ?thesis
    using api_view_blob_ok [OF 1 g c d nl] z g n by simp
qed

subsection \<open>Content type resolution\<close>

lemma api_list_blobs_items:
  assumes "bsc be e = Inr svc"
    and "get_container_client be (container_name_of e) = None"
    and "list_blobs be (container_name_of e)
           (if is_azurite e then [''metadata''] else [''metadata'', ''tags'']) = Inr bs"
  shows "listed (fst (api_list_blobs be e)) = map (list_blob_item (container_name_of e)) bs"
proof -
  obtain cs where "ensure_container_exists be e (container_name_of e)
                     = (Inr (ContainerClient (container_name_of e)), cs)"
    using ensure_container_exists_pair [OF assms(1,2)] by blast
  then show ?thesis
    using assms by (simp add: api_list_blobs_def listed_def json_field_def jsonify_def jget_def)
qed

lemma api_get_blob_field:
  assumes "bsc be e = Inr svc"
    and "get_blob_properties be (container_name_of e) bn = Inr props"
  shows "json_field k (api_get_blob be e bn) = jget k (get_blob_item (container_name_of e) bn props)"
  using assms by (simp add: api_get_blob_def json_field_def jsonify_def)

lemma api_view_blob_mimetype:
  assumes "bsc be e = Inr svc"
    and "get_blob_properties be (container_name_of e) bn = Inr props"
    and "view_content_type guess_type bn props = Inr ctype"
    and "download_blob be (container_name_of e) bn = Inr chunks"
    and "\<not> has_newline ctype" and "\<not> has_newline (basename bn)"
  shows "mimetype (api_view_blob be e guess_type bn) = ctype"
  using api_view_blob_ok [OF assms] by simp

lemma list_blob_item_type:
  "jget ''type'' (list_blob_item cn b)
     = Some (JStr (or_str (py_or (md_get (md_of b) ''mime_type'')
                                 (cs_get (blob_content_settings b) content_type)) []))
   \<and> jget ''contentType'' (list_blob_item cn b) = jget ''type'' (list_blob_item cn b)"
  by (cases "blob_content_settings b"; cases "md_get (md_of b) ''mime_type''")
     (simp_all add: list_blob_item_def jget_def cs_get_def or_str_def py_or_def truthy_def
        Let_def split: option.splits)

lemma get_blob_item_type:
  "jget ''type'' (get_blob_item cn bn b)
     = Some (JStr (or_str (py_or (md_get (md_of b) ''mime_type'')
                                 (cs_get (blob_content_settings b) content_type)) []))"
  by (simp add: get_blob_item_def jget_def Let_def)

lemma two_step_agrees:
  assumes "truthy m \<or> truthy c"
  shows "or_str (py_or m c) [] = (if truthy m then the m else the c)"
  using assms by (auto simp add: or_str_def py_or_def truthy_def split: option.splits)

lemma two_step_empty:
  assumes "\<not> truthy m" and "\<not> truthy c"
  shows "or_str (py_or m c) [] = []"
  using assms by (auto simp add: or_str_def py_or_def truthy_def split: option.splits)

lemma view_content_type_spec:
  assumes "truthy (md_get (md_of b) ''mime_type'') \<or> blob_content_settings b \<noteq> None"
  shows "view_content_type guess_type bn b = Inr (spec_content_type guess_type bn b)"
  using assms
  by (auto simp add: view_content_type_def spec_content_type_def cs_get_def Let_def
        split: option.splits)

text \<open>
  C1, amended.  For a blob that the backend lists and reports under its name: List and Get
  give as \<^verbatim>\<open>type\<close> (List also as \<^verbatim>\<open>contentType\<close>) the \<^verbatim>\<open>mime_type\<close> metadata value,
  else the content type of the content settings, else the empty string; View, for a name
  and a type without carriage return or line feed, resolves by the four steps of the
  specification.  So the three agree, on the type the four steps give, whenever the
  metadata value or the content-settings type is non-empty (as for a blob stored by Upload
  under a name with a known extension); when both are empty, List and Get report the empty
  string while View goes on to the guess and the fallback.
\<close>

theorem content_type_resolution:
  assumes svc: "bsc be e = Inr svc"
    and cc: "get_container_client be (container_name_of e) = None"
    and ls: "list_blobs be (container_name_of e)
               (if is_azurite e then [''metadata''] else [''metadata'', ''tags'']) = Inr bs"
    and inl: "b \<in> set bs"
    and gp: "get_blob_properties be (container_name_of e) bn = Inr b"
    and dl: "download_blob be (container_name_of e) bn = Inr chunks"
    and nl: "\<not> has_newline (spec_content_type guess_type bn b)" "\<not> has_newline (basename bn)"
  shows "list_blob_item (container_name_of e) b \<in> set (listed (fst (api_list_blobs be e)))
       \<and> (truthy (md_get (md_of b) ''mime_type'')
            \<or> truthy (cs_get (blob_content_settings b) content_type) \<longrightarrow>
            jget ''type'' (list_blob_item (container_name_of e) b)
              = Some (JStr (spec_content_type guess_type bn b))
            \<and> jget ''contentType'' (list_blob_item (container_name_of e) b)
              = Some (JStr (spec_content_type guess_type bn b))
            \<and> json_field ''type'' (api_get_blob be e bn)
              = Some (JStr (spec_content_type guess_type bn b))
            \<and> mimetype (api_view_blob be e guess_type bn) = spec_content_type guess_type bn b)
       \<and> (\<not> truthy (md_get (md_of b) ''mime_type'')
            \<and> \<not> truthy (cs_get (blob_content_settings b) content_type) \<longrightarrow>
            jget ''type'' (list_blob_item (container_name_of e) b) = Some (JStr [])
            \<and> jget ''contentType'' (list_blob_item (container_name_of e) b) = Some (JStr [])
            \<and> json_field ''type'' (api_get_blob be e bn) = Some (JStr [])
            \<and> (blob_content_settings b \<noteq> None \<longrightarrow>
                 mimetype (api_view_blob be e guess_type bn) = spec_content_type guess_type bn b))"
  (is "?A \<and> ?B \<and> ?C")
proof -
  let ?m = "md_get (md_of b) ''mime_type''"
  let ?c = "cs_get (blob_content_settings b) content_type"
  have a: ?A
    using api_list_blobs_items [OF svc cc ls] inl by simp
  have lt: "jget ''type'' (list_blob_item (container_name_of e) b)
              = Some (JStr (or_str (py_or ?m ?c) []))"
    and lc: "jget ''contentType'' (list_blob_item (container_name_of e) b)
              = Some (JStr (or_str (py_or ?m ?c) []))"
    using list_blob_item_type [of "container_name_of e" b] by simp_all
  have gt: "json_field ''type'' (api_get_blob be e bn) = Some (JStr (or_str (py_or ?m ?c) []))"
    using api_get_blob_field [OF svc gp] get_blob_item_type by simp
  have vw: "truthy ?m \<or> blob_content_settings b \<noteq> None \<Longrightarrow>
              mimetype (api_view_blob be e guess_type bn) = spec_content_type guess_type bn b"
    using api_view_blob_mimetype [OF svc gp view_content_type_spec dl nl] by simp
  have b: ?B
  proof (intro impI)
    assume t: "truthy ?m \<or> truthy ?c"
    then have s: "or_str (py_or ?m ?c) [] = spec_content_type guess_type bn b"
      using two_step_agrees [OF t] by (auto simp add: spec_content_type_def)
    from t have "truthy ?m \<or> blob_content_settings b \<noteq> None"
      by (auto simp add: cs_get_def truthy_def)
    then have "mimetype (api_view_blob be e guess_type bn) = spec_content_type guess_type bn b"
      by (rule vw)
    then show "jget ''type'' (list_blob_item (container_name_of e) b)
              = Some (JStr (spec_content_type guess_type bn b))
            \<and> jget ''contentType'' (list_blob_item (container_name_of e) b)
              = Some (JStr (spec_content_type guess_type bn b))
            \<and> json_field ''type'' (api_get_blob be e bn)
              = Some (JStr (spec_content_type guess_type bn b))
            \<and> mimetype (api_view_blob be e guess_type bn) = spec_content_type guess_type bn b"
      using lt lc gt s by simp
  qed
  have c: ?C
  proof (intro impI)
    assume n: "\<not> truthy ?m \<and> \<not> truthy ?c"
    then have s: "or_str (py_or ?m ?c) [] = []"
      using two_step_empty by blast
    show "jget ''type'' (list_blob_item (container_name_of e) b) = Some (JStr [])
            \<and> jget ''contentType'' (list_blob_item (container_name_of e) b) = Some (JStr [])
            \<and> json_field ''type'' (api_get_blob be e bn) = Some (JStr [])
            \<and> (blob_content_settings b \<noteq> None \<longrightarrow>
                 mimetype (api_view_blob be e guess_type bn) = spec_content_type guess_type bn b)"
      using lt lc gt s vw by simp
  qed
  from a b c show ?thesis by blast
qed

text \<open>
  C1 on \<^verbatim>\<open>report.pdf\<close> stored with the content type \<^verbatim>\<open>application/pdf\<close> and no metadata:
  the three operations report \<^verbatim>\<open>application/pdf\<close>.
\<close>

theorem content_type_resolution_witness:
  "map (jget ''type'') (listed (fst (api_list_blobs (be_serving blob_pdf) env_emulator)))
     = [Some (JStr ''application/pdf'')]
   \<and> json_field ''type'' (api_get_blob (be_serving blob_pdf) env_emulator ''report.pdf'')
       = Some (JStr ''application/pdf'')
   \<and> mimetype (api_view_blob (be_serving blob_pdf) env_emulator guess_sample ''report.pdf'')
       = ''application/pdf''"
proof -
  have n: "container_name_of env_emulator = ''uploads''"
    by (simp add: container_name_of_def env_emulator_def getenv_default_def)
  have 1: "bsc (be_serving blob_pdf) env_emulator = Inr sample_service"
    by (simp add: fixture_simps)
  have 2: "get_container_client (be_serving blob_pdf) (container_name_of env_emulator) = None"
    by (simp add: be_serving_def)
  have 3: "list_blobs (be_serving blob_pdf) (container_name_of env_emulator)
             (if is_azurite env_emulator then [''metadata''] else [''metadata'', ''tags''])
             = Inr [blob_pdf]"
    by (simp add: be_serving_def)
  have 4: "blob_pdf \<in> set [blob_pdf]"
    by simp
  have 5: "get_blob_properties (be_serving blob_pdf) (container_name_of env_emulator)
             ''report.pdf'' = Inr blob_pdf"
    by (simp add: be_serving_def)
  have 6: "download_blob (be_serving blob_pdf) (container_name_of env_emulator) ''report.pdf''
             = Inr [''chunk1'', ''chunk2'']"
    by (simp add: be_serving_def)
  have m: "md_get (md_of blob_pdf) ''mime_type'' = None"
    by (simp add: md_get_def md_of_def blob_pdf_def blob_untyped_def)
  have c: "cs_get (blob_content_settings blob_pdf) content_type = Some ''application/pdf''"
    by (simp add: cs_get_def blob_pdf_def blob_untyped_def)
  have s: "spec_content_type guess_sample ''report.pdf'' blob_pdf = ''application/pdf''"
    using m c by (simp add: spec_content_type_def truthy_def)
  have l: "listed (fst (api_list_blobs (be_serving blob_pdf) env_emulator))
             = [list_blob_item ''uploads'' blob_pdf]"
    using api_list_blobs_items [OF 1 2 3] n by simp
  have nl: "\<not> has_newline (spec_content_type guess_sample ''report.pdf'' blob_pdf)"
    "\<not> has_newline (basename ''report.pdf'')"
    using s by (simp_all add: has_newline_def basename_def)
  have "jget ''type'' (list_blob_item ''uploads'' blob_pdf) = Some (JStr ''application/pdf'')
        \<and> json_field ''type'' (api_get_blob (be_serving blob_pdf) env_emulator ''report.pdf'')
            = Some (JStr ''application/pdf'')
        \<and> mimetype (api_view_blob (be_serving blob_pdf) env_emulator guess_sample ''report.pdf'')
            = ''application/pdf''"
    using content_type_resolution [OF 1 2 3 4 5 6 nl] n m c s
    by (simp add: truthy_def)
  then show ?thesis
    using l by simp
qed

text \<open>
  C1 as stated fails for \<^verbatim>\<open>report.pdf\<close> with neither the metadata key nor a content type in
  its content settings: List and Get report the empty string, View reports
  \<^verbatim>\<open>application/pdf\<close>.
\<close>

theorem content_type_resolution_counterexample:
  "map (jget ''type'') (listed (fst (api_list_blobs (be_serving blob_untyped) env_emulator)))
     = [Some (JStr [])]
   \<and> json_field ''type'' (api_get_blob (be_serving blob_untyped) env_emulator ''report.pdf'')
       = Some (JStr [])
   \<and> mimetype (api_view_blob (be_serving blob_untyped) env_emulator guess_sample ''report.pdf'')
       = ''application/pdf''
   \<and> spec_content_type guess_sample ''report.pdf'' blob_untyped = ''application/pdf''"
proof -
  have n: "container_name_of env_emulator = ''uploads''"
    by (simp add: container_name_of_def env_emulator_def getenv_default_def)
  have 1: "bsc (be_serving blob_untyped) env_emulator = Inr sample_service"
    by (simp add: fixture_simps)
  have 2: "get_container_client (be_serving blob_untyped) (container_name_of env_emulator) = None"
    by (simp add: be_serving_def)
  have 3: "list_blobs (be_serving blob_untyped) (container_name_of env_emulator)
             (if is_azurite env_emulator then [''metadata''] else [''metadata'', ''tags''])
             = Inr [blob_untyped]"
    by (simp add: be_serving_def)
  have 5: "get_blob_properties (be_serving blob_untyped) (container_name_of env_emulator)
             ''report.pdf'' = Inr blob_untyped"
    by (simp add: be_serving_def)
  have 6: "download_blob (be_serving blob_untyped) (container_name_of env_emulator) ''report.pdf''
             = Inr [''chunk1'', ''chunk2'']"
    by (simp add: be_serving_def)
  have m: "md_get (md_of blob_untyped) ''mime_type'' = None"
    by (simp add: md_get_def md_of_def blob_untyped_def)
  have c: "cs_get (blob_content_settings blob_untyped) content_type = None"
    by (simp add: cs_get_def blob_untyped_def)
  have g: "guess_sample ''report.pdf'' = Some ''application/pdf''"
    by (simp add: guess_sample_def endswith_def)
  have s: "spec_content_type guess_sample ''report.pdf'' blob_untyped = ''application/pdf''"
    using m c g by (simp add: spec_content_type_def truthy_def)
  have v: "view_content_type guess_sample ''report.pdf'' blob_untyped = Inr ''application/pdf''"
    using m g by (simp add: view_content_type_def blob_untyped_def truthy_def)
  have l: "listed (fst (api_list_blobs (be_serving blob_untyped) env_emulator))
             = [list_blob_item ''uploads'' blob_untyped]"
    using api_list_blobs_items [OF 1 2 3] n by simp
  have lt: "jget ''type'' (list_blob_item ''uploads'' blob_untyped) = Some (JStr [])"
    using list_blob_item_type [of "''uploads''" blob_untyped] m c
    by (simp add: or_str_def py_or_def truthy_def)
  have gt: "json_field ''type'' (api_get_blob (be_serving blob_untyped) env_emulator ''report.pdf'')
              = Some (JStr [])"
    using api_get_blob_field [OF 1 5] get_blob_item_type [of "''uploads''" "''report.pdf''" blob_untyped]
      n m c
    by (simp add: or_str_def py_or_def truthy_def)
  have vt: "mimetype (api_view_blob (be_serving blob_untyped) env_emulator guess_sample ''report.pdf'')
              = ''application/pdf''"
    using api_view_blob_mimetype [OF 1 5 v 6] n by (simp add: has_newline_def basename_def)
  from l lt gt vt s show ?thesis by simp
qed

end
